theory Spec2Isabelle
  imports Main
begin

section \<open>Values, texts and errors of the JavaScript platform\<close>

text \<open>
  A value that crosses \<^verbatim>\<open>JSON.parse\<close> or \<^verbatim>\<open>JSON.stringify\<close>. An object is the list of
  its own properties in insertion order; a number is kept as the text JavaScript prints for
  it (\<^verbatim>\<open>String(n)\<close>), which names the number up to the sign of zero.
\<close>

datatype json =
    JNull
  | JBool bool
  | JNum string
  | JStr string
  | JArr "json list"
  | JObj "(string \<times> json) list"

text \<open>
  A text handed to \<^verbatim>\<open>JSON.parse\<close> is represented by what \<^verbatim>\<open>JSON.parse\<close> makes of it:
  \<open>JSON v\<close> stands for a text that parses to \<open>v\<close> (the text \<^verbatim>\<open>JSON.stringify\<close> writes for
  \<open>v\<close> is one), \<open>NotJSON s\<close> for a text \<open>s\<close> that it rejects. The empty string is
  \<open>NotJSON []\<close>.
\<close>

datatype jtext = NotJSON string | JSON json

datatype js_error =
    Error (message: string)
  | SyntaxError (message: string)
  | TypeError (message: string)
  | DOMException (message: string)

fun JSON_parse :: "jtext \<Rightarrow> js_error + json" where
  "JSON_parse (NotJSON s) = Inl (SyntaxError ''Unexpected token'')"
| "JSON_parse (JSON v) = Inr v"

definition JSON_stringify :: "json \<Rightarrow> jtext" where
  "JSON_stringify v = JSON v"

text \<open>The truthiness of a string: only the empty string is falsy.\<close>

fun truthy :: "jtext \<Rightarrow> bool" where
  "truthy (NotJSON s) = (s \<noteq> [])"
| "truthy (JSON v) = True"

text \<open>
  The array spread \<^verbatim>\<open>...v\<close>: an array gives its elements, a string its characters, and
  any other value is not iterable.
\<close>

fun spread :: "json \<Rightarrow> js_error + json list" where
  "spread (JArr xs) = Inr xs"
| "spread (JStr s) = Inr (map (\<lambda>c. JStr [c]) s)"
| "spread v = Inl (TypeError ''history is not iterable'')"

text \<open>
  \<^verbatim>\<open>o[k] = v\<close> on the property list of an object: an existing key keeps its place, a new
  key goes last.
\<close>

fun set_prop :: "string \<Rightarrow> json \<Rightarrow> (string \<times> json) list \<Rightarrow> (string \<times> json) list" where
  "set_prop k v [] = [(k, v)]"
| "set_prop k v (p # ps) = (if fst p = k then (k, v) # ps else p # set_prop k v ps)"

fun has_prop :: "string \<Rightarrow> (string \<times> json) list \<Rightarrow> bool" where
  "has_prop k [] = False"
| "has_prop k (p # ps) = (fst p = k \<or> has_prop k ps)"

text \<open>\<^verbatim>\<open>Number.prototype.toString(36)\<close> on a natural number.\<close>

definition digit36 :: "nat \<Rightarrow> char" where
  "digit36 d = ''0123456789abcdefghijklmnopqrstuvwxyz'' ! d"

function toString36 :: "nat \<Rightarrow> string" where
  "toString36 n = (if n < 36 then [digit36 n] else toString36 (n div 36) @ [digit36 (n mod 36)])"
  by pat_completeness auto
termination
  by (relation "measure (\<lambda>n. n)") auto

text \<open>
  \<^verbatim>\<open>String(n)\<close> on a natural number below \<open>10\<^sup>2\<^sup>1\<close>, where JavaScript prints all the
  digits (a clock reading is far below).
\<close>

function Number_toString :: "nat \<Rightarrow> string" where
  "Number_toString n =
     (if n < 10 then [digit36 n] else Number_toString (n div 10) @ [digit36 (n mod 10)])"
  by pat_completeness auto
termination
  by (relation "measure (\<lambda>n. n)") auto

text \<open>
  A property read \<^verbatim>\<open>v.k\<close>, for a name \<open>k\<close> that no prototype defines: it raises on
  \<^verbatim>\<open>null\<close>, gives the property of an object that has it, and \<^verbatim>\<open>undefined\<close> (\<open>None\<close>)
  otherwise.
\<close>

fun get_prop :: "json \<Rightarrow> string \<Rightarrow> js_error + json option" where
  "get_prop JNull k = Inl (TypeError ''Cannot read properties of null'')"
| "get_prop (JObj ps) k = Inr (map_of ps k)"
| "get_prop v k = Inr None"

text \<open>
  The conversion to a string that a template literal applies. A parsed object has no
  functions: one with a property \<^verbatim>\<open>toString\<close> of its own cannot be converted, any other
  prints as \<^verbatim>\<open>[object Object]\<close>. An array prints its elements separated by commas,
  \<^verbatim>\<open>null\<close> elements as nothing.
\<close>

fun ToString :: "json \<Rightarrow> js_error + string"
  and join_elements :: "json list \<Rightarrow> js_error + string" where
  "ToString JNull = Inr ''null''"
| "ToString (JBool b) = Inr (if b then ''true'' else ''false'')"
| "ToString (JNum n) = Inr n"
| "ToString (JStr s) = Inr s"
| "ToString (JArr xs) = join_elements xs"
| "ToString (JObj ps) =
     (if has_prop ''toString'' ps
      then Inl (TypeError ''Cannot convert object to primitive value'')
      else Inr ''[object Object]'')"
| "join_elements [] = Inr []"
| "join_elements (x # xs) =
     (case (if x = JNull then Inr [] else ToString x) of
        Inl e \<Rightarrow> Inl e
      | Inr a \<Rightarrow>
          (if xs = [] then Inr a
           else case join_elements xs of
                  Inl e \<Rightarrow> Inl e
                | Inr b \<Rightarrow> Inr (a @ '','' @ b)))"

text \<open>The same conversion on a value that may be \<^verbatim>\<open>undefined\<close>.\<close>

fun ToString_opt :: "json option \<Rightarrow> js_error + string" where
  "ToString_opt None = Inr ''undefined''"
| "ToString_opt (Some v) = ToString v"

section \<open>The data model (types.ts)\<close>

record PracticeQuestion =
  subject :: "string option"
  topic :: string
  question_text :: string

datatype Stage1 = INITIAL_DIAGNOSIS

datatype Stage2 = CONVERSATIONAL_FEEDBACK

datatype EvaluationResult = CORRECT | CONCEPT_ERROR | CALCULATION_ERROR

datatype DialogueAction = CONTINUE | MASTERY_ACHIEVED

record FeedbackResult =
  stage :: Stage2
  evaluation_result :: EvaluationResult
  feedback_message :: string
  dialogue_action :: DialogueAction
  next_instruction :: string

record InitialDiagnosis =
  stage :: Stage1
  conceptual_misunderstanding :: string
  new_practice_question :: PracticeQuestion
  tutor_feedback :: string
  next_instruction :: string
  diagnosed_error_step :: "string option"
  status :: "string option"

datatype Role = User | Tutor

text \<open>
  \<^verbatim>\<open>feedbackType\<close> is one of the three evaluation results or \<^verbatim>\<open>"INFO"\<close>; the handler
  stores the gateway's \<^verbatim>\<open>evaluation_result\<close> there through a cast to \<^verbatim>\<open>any\<close>, so that a
  value outside the declared union is kept as it is (\<open>Other\<close>).
\<close>

datatype FeedbackType = Evaluation EvaluationResult | INFO | Other json

record ChatMessage =
  role :: Role
  content :: string
  audioUrl :: "string option"
  timestamp :: nat
  feedbackType :: "FeedbackType option"

record HistoryItem = InitialDiagnosis +
  id' :: string
  timestamp :: nat
  user_context :: "string option"

subsection \<open>The properties an object of the data model has when it is serialised\<close>

definition optional_prop :: "string \<Rightarrow> string option \<Rightarrow> (string \<times> json) list" where
  "optional_prop k v = (case v of None \<Rightarrow> [] | Some s \<Rightarrow> [(k, JStr s)])"

definition PracticeQuestion_props :: "PracticeQuestion \<Rightarrow> (string \<times> json) list" where
  "PracticeQuestion_props q =
     optional_prop ''subject'' (subject q)
     @ [(''topic'', JStr (topic q)), (''question_text'', JStr (question_text q))]"

definition InitialDiagnosis_props :: "'a InitialDiagnosis_scheme \<Rightarrow> (string \<times> json) list" where
  "InitialDiagnosis_props d =
     [(''stage'', JStr ''INITIAL_DIAGNOSIS''),
      (''conceptual_misunderstanding'', JStr (conceptual_misunderstanding d)),
      (''new_practice_question'', JObj (PracticeQuestion_props (new_practice_question d))),
      (''tutor_feedback'', JStr (tutor_feedback d)),
      (''next_instruction'', JStr (InitialDiagnosis.next_instruction d))]
     @ optional_prop ''diagnosed_error_step'' (diagnosed_error_step d)
     @ optional_prop ''status'' (status d)"

fun EvaluationResult_text :: "EvaluationResult \<Rightarrow> string" where
  "EvaluationResult_text CORRECT = ''CORRECT''"
| "EvaluationResult_text CONCEPT_ERROR = ''CONCEPT_ERROR''"
| "EvaluationResult_text CALCULATION_ERROR = ''CALCULATION_ERROR''"

fun DialogueAction_text :: "DialogueAction \<Rightarrow> string" where
  "DialogueAction_text CONTINUE = ''CONTINUE''"
| "DialogueAction_text MASTERY_ACHIEVED = ''MASTERY_ACHIEVED''"

definition FeedbackResult_json :: "FeedbackResult \<Rightarrow> json" where
  "FeedbackResult_json fb =
     JObj [(''stage'', JStr ''CONVERSATIONAL_FEEDBACK''),
           (''evaluation_result'', JStr (EvaluationResult_text (evaluation_result fb))),
           (''feedback_message'', JStr (feedback_message fb)),
           (''dialogue_action'', JStr (DialogueAction_text (dialogue_action fb))),
           (''next_instruction'', JStr (FeedbackResult.next_instruction fb))]"

definition HistoryItem_json :: "HistoryItem \<Rightarrow> json" where
  "HistoryItem_json h =
     JObj (set_prop ''timestamp'' (JNum (Number_toString (HistoryItem.timestamp h)))
          (set_prop ''id'' (JStr (id' h))
          (case user_context h of
             None \<Rightarrow> InitialDiagnosis_props h
           | Some u \<Rightarrow> set_prop ''user_context'' (JStr u) (InitialDiagnosis_props h))))"

section \<open>The history store (services/historyService.ts)\<close>

text \<open>
  The browser's local storage: the stored entries, and whether reading or writing it
  raises (storage disabled, quota exceeded).
\<close>

record localStorage =
  items :: "string \<Rightarrow> jtext option"
  getItem_throws :: bool
  setItem_throws :: bool

definition getItem :: "localStorage \<Rightarrow> string \<Rightarrow> js_error + jtext option" where
  "getItem ls k =
     (if getItem_throws ls then Inl (DOMException ''The operation is insecure.'')
      else Inr (items ls k))"

definition setItem :: "localStorage \<Rightarrow> string \<Rightarrow> jtext \<Rightarrow> js_error + localStorage" where
  "setItem ls k v =
     (if setItem_throws ls then Inl (DOMException ''The quota has been exceeded.'')
      else Inr (ls\<lparr>items := (items ls)(k \<mapsto> v)\<rparr>))"

definition removeItem :: "localStorage \<Rightarrow> string \<Rightarrow> localStorage" where
  "removeItem ls k = ls\<lparr>items := (items ls)(k := None)\<rparr>"

definition HISTORY_KEY :: string where
  "HISTORY_KEY = ''omni_tutor_history''"

definition getHistory :: "localStorage \<Rightarrow> json" where
  "getHistory ls =
     (case getItem ls HISTORY_KEY of
        Inl e \<Rightarrow> JArr []
      | Inr None \<Rightarrow> JArr []
      | Inr (Some stored) \<Rightarrow>
          (if truthy stored
           then (case JSON_parse stored of Inl e \<Rightarrow> JArr [] | Inr v \<Rightarrow> v)
           else JArr []))"

text \<open>
  \<^verbatim>\<open>saveToHistory(result, userContext)\<close>. The clock is read twice (\<open>now_id\<close> for the id,
  \<open>now_ts\<close> for the timestamp) and \<open>rnd\<close> is the text of
  \<^verbatim>\<open>Math.random().toString(36).substr(2)\<close>. The result is the created item and the storage
  after the call, or the error the call raises.
\<close>

definition newItem :: "InitialDiagnosis \<Rightarrow> string \<Rightarrow> nat \<Rightarrow> string \<Rightarrow> nat \<Rightarrow> HistoryItem" where
  "newItem result userContext now_id rnd now_ts =
     InitialDiagnosis.extend result
       (HistoryItem.fields (toString36 now_id @ rnd) now_ts (Some userContext))"

definition saveToHistory ::
  "InitialDiagnosis \<Rightarrow> string \<Rightarrow> nat \<Rightarrow> string \<Rightarrow> nat \<Rightarrow> localStorage
     \<Rightarrow> js_error + (HistoryItem \<times> localStorage)" where
  "saveToHistory result userContext now_id rnd now_ts ls =
     (let history = getHistory ls;
          item = newItem result userContext now_id rnd now_ts
      in case spread history of
           Inl e \<Rightarrow> Inl e
         | Inr old \<Rightarrow>
             (let updated = take 50 (HistoryItem_json item # old)
              in case setItem ls HISTORY_KEY (JSON_stringify (JArr updated)) of
                   Inl e \<Rightarrow> Inl e
                 | Inr ls' \<Rightarrow> Inr (item, ls')))"

definition clearHistory :: "localStorage \<Rightarrow> localStorage" where
  "clearHistory ls = removeItem ls HISTORY_KEY"

subsection \<open>Sequences of calls\<close>

text \<open>
  One call of \<^verbatim>\<open>saveToHistory\<close> with what it reads from its environment: the result, the
  user context, the clock at the id, the random text, the clock at the timestamp.
\<close>

type_synonym record_call = "InitialDiagnosis \<times> string \<times> nat \<times> string \<times> nat"

fun recorded :: "record_call \<Rightarrow> json" where
  "recorded (result, userContext, now_id, rnd, now_ts) =
     HistoryItem_json (newItem result userContext now_id rnd now_ts)"

text \<open>The calls in order, each on the storage the one before left; the first error ends the run.\<close>

fun record_all :: "record_call list \<Rightarrow> localStorage \<Rightarrow> js_error + localStorage" where
  "record_all [] ls = Inr ls"
| "record_all ((result, userContext, now_id, rnd, now_ts) # cs) ls =
     (case saveToHistory result userContext now_id rnd now_ts ls of
        Inl e \<Rightarrow> Inl e
      | Inr (item, ls') \<Rightarrow> record_all cs ls')"

definition empty_store :: localStorage where
  "empty_store = \<lparr>items = (\<lambda>k. None), getItem_throws = False, setItem_throws = False\<rparr>"

section \<open>The model gateway (services/geminiService.ts)\<close>

record Blob =
  size' :: nat
  type' :: string

record File = Blob +
  name :: string

text \<open>A response schema: a string with its allowed values, or an object with its
  properties and the names of the required ones.\<close>

datatype Schema =
    STRING "string list"
  | OBJECT "(string \<times> Schema) list" "string list"

fun required :: "Schema \<Rightarrow> string list" where
  "required (STRING enum) = []"
| "required (OBJECT properties req) = req"

definition diagnosisSchema :: Schema where
  "diagnosisSchema = OBJECT
     [(''stage'', STRING [''INITIAL_DIAGNOSIS'']),
      (''conceptual_misunderstanding'', STRING []),
      (''new_practice_question'',
         OBJECT [(''topic'', STRING []), (''question_text'', STRING [])]
                [''topic'', ''question_text'']),
      (''tutor_feedback'', STRING []),
      (''next_instruction'', STRING [])]
     [''stage'', ''conceptual_misunderstanding'', ''new_practice_question'',
      ''tutor_feedback'', ''next_instruction'']"

definition feedbackSchema :: Schema where
  "feedbackSchema = OBJECT
     [(''stage'', STRING [''CONVERSATIONAL_FEEDBACK'']),
      (''evaluation_result'', STRING [''CORRECT'', ''CONCEPT_ERROR'', ''CALCULATION_ERROR'']),
      (''feedback_message'', STRING []),
      (''dialogue_action'', STRING [''CONTINUE'', ''MASTERY_ACHIEVED'']),
      (''next_instruction'', STRING [])]
     [''stage'', ''evaluation_result'', ''feedback_message'', ''dialogue_action'',
      ''next_instruction'']"

text \<open>
  The two prompts are fixed templates; a prompt is kept as the template's name with the
  texts that fill its holes (stage 1: the text context; stage 2: topic, question, the
  serialised transcript and the current input).
\<close>

datatype Prompt =
    DiagnosisPrompt string
  | FeedbackPrompt string string string string

datatype Part =
    TextPart Prompt
  | InlineData string string

record GenerateContentParameters =
  model :: string
  parts :: "Part list"
  responseMimeType :: string
  responseSchema :: Schema

text \<open>
  What the gateway reads from outside: the credential \<^verbatim>\<open>process.env.API_KEY\<close>, the two
  encoders of \<^verbatim>\<open>./utils\<close> (each returns the base64 text or raises), and the remote call,
  which raises or returns a response whose \<^verbatim>\<open>text\<close> may be undefined.
\<close>

record Platform =
  API_KEY :: "string option"
  fileToGenerativePart :: "File \<Rightarrow> js_error + string"
  blobToGenerativePart :: "Blob \<Rightarrow> js_error + string"
  generateContent :: "GenerateContentParameters \<Rightarrow> js_error + jtext option"

text \<open>
  An object the gateway returns: a plain object with its properties, or an array with its
  elements and the named properties set on it.
\<close>

datatype js_object =
    Object "(string \<times> json) list"
  | Array "json list" "(string \<times> json) list"

text \<open>
  Property assignment \<^verbatim>\<open>data.k = v\<close> in a module (strict mode): it raises on
  \<^verbatim>\<open>null\<close> and on a primitive.
\<close>

fun to_object :: "json \<Rightarrow> js_error + js_object" where
  "to_object (JObj ps) = Inr (Object ps)"
| "to_object (JArr xs) = Inr (Array xs [])"
| "to_object JNull = Inl (TypeError ''Cannot set properties of null'')"
| "to_object v = Inl (TypeError ''Cannot create property on primitive'')"

fun assign :: "string \<Rightarrow> json \<Rightarrow> js_object \<Rightarrow> js_object" where
  "assign k v (Object ps) = Object (set_prop k v ps)"
| "assign k v (Array xs ps) = Array xs (set_prop k v ps)"

fun own_props :: "js_object \<Rightarrow> (string \<times> json) list" where
  "own_props (Object ps) = ps"
| "own_props (Array xs ps) = ps"

definition missing_key :: js_error where
  "missing_key = Error ''API Key is missing. Please set process.env.API_KEY.''"

definition diagnose_failed :: js_error where
  "diagnose_failed = Error ''Failed to diagnose homework.''"

definition image_parts :: "Platform \<Rightarrow> File option \<Rightarrow> js_error + Part list" where
  "image_parts P imageFile =
     (case imageFile of
        None \<Rightarrow> Inr []
      | Some f \<Rightarrow>
          (case fileToGenerativePart P f of
             Inl e \<Rightarrow> Inl e
           | Inr imageBase64 \<Rightarrow> Inr [InlineData (type' f) imageBase64]))"

definition audio_parts :: "Platform \<Rightarrow> Blob option \<Rightarrow> js_error + Part list" where
  "audio_parts P audioBlob =
     (case audioBlob of
        None \<Rightarrow> Inr []
      | Some b \<Rightarrow>
          (case blobToGenerativePart P b of
             Inl e \<Rightarrow> Inl e
           | Inr audioBase64 \<Rightarrow> Inr [InlineData ''audio/wav'' audioBase64]))"

definition diagnosis_request :: "Part list \<Rightarrow> GenerateContentParameters" where
  "diagnosis_request ps =
     \<lparr>model = ''gemini-2.5-flash'', parts = ps,
      responseMimeType = ''application/json'', responseSchema = diagnosisSchema\<rparr>"

text \<open>The body of the \<^verbatim>\<open>try\<close> block of \<^verbatim>\<open>analyzeHomework\<close>.\<close>

definition parse_diagnosis :: "js_error + jtext option \<Rightarrow> js_error + js_object" where
  "parse_diagnosis response =
     (case response of
        Inl e \<Rightarrow> Inl e
      | Inr None \<Rightarrow> Inl (Error ''No response from Gemini.'')
      | Inr (Some textResponse) \<Rightarrow>
          (if \<not> truthy textResponse then Inl (Error ''No response from Gemini.'')
           else (case JSON_parse textResponse of
                   Inl e \<Rightarrow> Inl e
                 | Inr v \<Rightarrow>
                     (case to_object v of
                        Inl e \<Rightarrow> Inl e
                      | Inr data \<Rightarrow>
                          Inr (assign ''status'' (JStr ''Diagnosis'')
                                (assign ''diagnosed_error_step'' (JStr ''Concept Error'') data))))))"

definition analyzeHomework ::
  "Platform \<Rightarrow> File option \<Rightarrow> string \<Rightarrow> Blob option \<Rightarrow> js_error + js_object" where
  "analyzeHomework P imageFile textContext audioBlob =
     (if API_KEY P = None \<or> API_KEY P = Some [] then Inl missing_key
      else
        let promptText = DiagnosisPrompt
              (if textContext = [] then ''No specific text provided.'' else textContext)
        in case image_parts P imageFile of
             Inl e \<Rightarrow> Inl e
           | Inr image_ps \<Rightarrow>
               (case audio_parts P audioBlob of
                  Inl e \<Rightarrow> Inl e
                | Inr audio_ps \<Rightarrow>
                    (case parse_diagnosis
                            (generateContent P
                               (diagnosis_request (TextPart promptText # image_ps @ audio_ps))) of
                       Inl error \<Rightarrow> Inl diagnose_failed
                     | Inr data \<Rightarrow> Inr data)))"

text \<open>\<^verbatim>\<open>Array.prototype.join\<close> on strings.\<close>

fun join :: "string \<Rightarrow> string list \<Rightarrow> string" where
  "join sep [] = []"
| "join sep [x] = x"
| "join sep (x # y # ys) = x @ sep @ join sep (y # ys)"

definition historyStr :: "ChatMessage list \<Rightarrow> string" where
  "historyStr chatHistory =
     join [CHR 0x0A]
       (map (\<lambda>msg. (if role msg = User then ''Student'' else ''Tutor'') @ '': '' @ content msg)
            chatHistory)"

definition evaluate_failed :: js_error where
  "evaluate_failed = Error ''Failed to evaluate answer.''"

definition feedback_request :: "Part list \<Rightarrow> GenerateContentParameters" where
  "feedback_request ps =
     \<lparr>model = ''gemini-2.5-flash'', parts = ps,
      responseMimeType = ''application/json'', responseSchema = feedbackSchema\<rparr>"

text \<open>The body of the \<^verbatim>\<open>try\<close> block of \<^verbatim>\<open>evaluatePracticeResponse\<close>.\<close>

definition parse_feedback :: "js_error + jtext option \<Rightarrow> js_error + json" where
  "parse_feedback response =
     (case response of
        Inl e \<Rightarrow> Inl e
      | Inr None \<Rightarrow> Inl (Error ''No response from Gemini.'')
      | Inr (Some textResponse) \<Rightarrow>
          (if \<not> truthy textResponse then Inl (Error ''No response from Gemini.'')
           else JSON_parse textResponse))"

definition evaluatePracticeResponse ::
  "Platform \<Rightarrow> string \<times> string \<Rightarrow> ChatMessage list \<Rightarrow> string \<Rightarrow> Blob option
     \<Rightarrow> js_error + json" where
  "evaluatePracticeResponse P practiceContext chatHistory currentInput audioBlob =
     (if API_KEY P = None \<or> API_KEY P = Some [] then Inl missing_key
      else
        let promptText = FeedbackPrompt (fst practiceContext) (snd practiceContext)
              (historyStr chatHistory)
              (if currentInput = [] then ''(Audio Input Provided)'' else currentInput)
        in case audio_parts P audioBlob of
             Inl e \<Rightarrow> Inl e
           | Inr audio_ps \<Rightarrow>
               (case parse_feedback
                       (generateContent P (feedback_request (TextPart promptText # audio_ps))) of
                  Inl error \<Rightarrow> Inl evaluate_failed
                | Inr feedback \<Rightarrow> Inr feedback))"

text \<open>An object has the required stage-1 fields when each required name of the declared
  schema is one of its properties.\<close>

definition has_required_fields :: "(string \<times> json) list \<Rightarrow> bool" where
  "has_required_fields ps = list_all (\<lambda>k. has_prop k ps) (required diagnosisSchema)"

section \<open>The tutoring session (App.tsx)\<close>

text \<open>
  The two gateway operations as the handlers call them. The stage-1 call raises or returns
  a diagnosis, seen at the type its signature declares. The stage-2 call raises or returns
  the value that \<^verbatim>\<open>JSON.parse\<close> made of the service's text, which nothing has checked
  against the declared \<^verbatim>\<open>FeedbackResult\<close>: the handler reads its properties as they are.
\<close>

record geminiService =
  analyzeHomework_call :: "File \<Rightarrow> string \<Rightarrow> Blob option \<Rightarrow> js_error + InitialDiagnosis"
  evaluatePracticeResponse_call ::
    "string \<times> string \<Rightarrow> ChatMessage list \<Rightarrow> string \<Rightarrow> Blob option \<Rightarrow> js_error + json"

datatype GatewayCall =
    AnalyzeHomework File string "Blob option"
  | EvaluatePracticeResponse "string \<times> string" "ChatMessage list" string "Blob option"

text \<open>
  The state of the component, one field per \<^verbatim>\<open>useState\<close>, followed by the two parts of
  the world the handlers act on: the local storage and the gateway calls made so far.
\<close>

record App =
  image' :: "File option"
  previewUrl :: "string option"
  textInput :: string
  audioBlob :: "Blob option"
  diagnosis :: "InitialDiagnosis option"
  chatHistory :: "ChatMessage list"
  replyText :: string
  replyAudio :: "Blob option"
  isMasteryAchieved :: bool
  isLoading :: bool
  error :: "string option"
  history :: json
  showHistory :: bool
  storage :: localStorage
  requests :: "GatewayCall list"

definition MAX_FILE_SIZE_MB :: nat where
  "MAX_FILE_SIZE_MB = 10"

definition MAX_FILE_SIZE_BYTES :: nat where
  "MAX_FILE_SIZE_BYTES = MAX_FILE_SIZE_MB * 1024 * 1024"

definition ALLOWED_TYPES :: "string list" where
  "ALLOWED_TYPES = [''image/jpeg'', ''image/png'', ''image/webp'']"

text \<open>
  \<^verbatim>\<open>validateFile\<close> returns the message of the first failing check, or nothing. The second
  message is the source's template with \<^verbatim>\<open>MAX_FILE_SIZE_MB\<close> written out.
\<close>

definition validateFile :: "File \<Rightarrow> string option" where
  "validateFile file =
     (if \<not> List.member ALLOWED_TYPES (type' file)
      then Some ''Invalid file format. Please upload a JPG, PNG, or WebP image.''
      else if size' file > MAX_FILE_SIZE_BYTES
      then Some ''File size exceeds the 10MB limit. Please upload a smaller image.''
      else None)"

text \<open>The state after a file was accepted: the new image and a reset session.\<close>

definition accept_file :: "File \<Rightarrow> string \<Rightarrow> App \<Rightarrow> App" where
  "accept_file file url s =
     s\<lparr>image' := Some file, previewUrl := Some url, diagnosis := None, chatHistory := [],
       replyText := [], replyAudio := None, isMasteryAchieved := False, error := None\<rparr>"

text \<open>
  \<^verbatim>\<open>handleImageUpload\<close> and \<^verbatim>\<open>handleDrop\<close>: \<open>files\<close> is the event's file list and \<open>url\<close>
  the object URL the browser makes for the file. Clearing the value of the file input on
  a rejected upload acts on the page only, not on the state.
\<close>

definition handleImageUpload :: "File list \<Rightarrow> string \<Rightarrow> App \<Rightarrow> App" where
  "handleImageUpload files url s =
     (case files of
        [] \<Rightarrow> s
      | file # rest \<Rightarrow>
          (case validateFile file of
             Some validationError \<Rightarrow> s\<lparr>error := Some validationError\<rparr>
           | None \<Rightarrow> accept_file file url s))"

definition handleDrop :: "File list \<Rightarrow> string \<Rightarrow> App \<Rightarrow> App" where
  "handleDrop files url s =
     (case files of
        [] \<Rightarrow> s
      | file # rest \<Rightarrow>
          (case validateFile file of
             Some validationError \<Rightarrow> s\<lparr>error := Some validationError\<rparr>
           | None \<Rightarrow> accept_file file url s))"

text \<open>\<^verbatim>\<open>err.message || fallback\<close>.\<close>

definition message_or :: "js_error \<Rightarrow> string \<Rightarrow> string" where
  "message_or err fallback = (if message err = [] then fallback else message err)"

definition first_instruction :: "string \<Rightarrow> nat \<Rightarrow> ChatMessage" where
  "first_instruction instruction t =
     \<lparr>role = Tutor, content = instruction, audioUrl = None, timestamp = t,
      feedbackType = Some INFO\<rparr>"

text \<open>
  \<^verbatim>\<open>handleInitialAnalysis\<close>, with the clock at the chat message (\<open>now\<close>) and what
  \<^verbatim>\<open>saveToHistory\<close> reads (\<open>now_id\<close>, \<open>rnd\<close>, \<open>now_ts\<close>).
\<close>

definition handleInitialAnalysis ::
  "geminiService \<Rightarrow> nat \<Rightarrow> nat \<Rightarrow> string \<Rightarrow> nat \<Rightarrow> App \<Rightarrow> App" where
  "handleInitialAnalysis gw now now_id rnd now_ts s =
     (case image' s of
        None \<Rightarrow> s\<lparr>error := Some ''Please upload an image of your homework first.''\<rparr>
      | Some img \<Rightarrow>
          (let s1 = s\<lparr>isLoading := True, error := None,
                      requests := requests s @ [AnalyzeHomework img (textInput s) (audioBlob s)]\<rparr>
           in case analyzeHomework_call gw img (textInput s) (audioBlob s) of
                Inl err \<Rightarrow>
                  s1\<lparr>error := Some (message_or err ''An unexpected error occurred.''),
                     isLoading := False\<rparr>
              | Inr data \<Rightarrow>
                  (let s2 = s1\<lparr>diagnosis := Some data,
                              chatHistory :=
                                [first_instruction (InitialDiagnosis.next_instruction data) now]\<rparr>
                   in case saveToHistory data (textInput s) now_id rnd now_ts (storage s2) of
                        Inl err \<Rightarrow>
                          s2\<lparr>error := Some (message_or err ''An unexpected error occurred.''),
                             isLoading := False\<rparr>
                      | Inr (item, ls') \<Rightarrow>
                          s2\<lparr>storage := ls', history := getHistory ls', replyText := [],
                             replyAudio := None, isLoading := False\<rparr>)))"

subsection \<open>The practice reply\<close>

definition userMsg :: "App \<Rightarrow> nat \<Rightarrow> ChatMessage" where
  "userMsg s t =
     \<lparr>role = User,
      content = (if replyText s = [] then ''(Audio Response)'' else replyText s),
      audioUrl = None, timestamp = t, feedbackType = None\<rparr>"

text \<open>The value of \<^verbatim>\<open>feedback.evaluation_result\<close> as a \<^verbatim>\<open>feedbackType\<close>.\<close>

fun as_FeedbackType :: "json option \<Rightarrow> FeedbackType option" where
  "as_FeedbackType None = None"
| "as_FeedbackType (Some (JStr s)) =
     (if s = ''CORRECT'' then Some (Evaluation CORRECT)
      else if s = ''CONCEPT_ERROR'' then Some (Evaluation CONCEPT_ERROR)
      else if s = ''CALCULATION_ERROR'' then Some (Evaluation CALCULATION_ERROR)
      else if s = ''INFO'' then Some INFO
      else Some (Other (JStr s)))"
| "as_FeedbackType (Some v) = Some (Other v)"

text \<open>
  The object literal \<^verbatim>\<open>tutorMsg\<close>: the template reads and converts \<^verbatim>\<open>feedback_message\<close>,
  then \<^verbatim>\<open>next_instruction\<close>; each step may raise.
\<close>

definition tutorMsg :: "json \<Rightarrow> nat \<Rightarrow> js_error + ChatMessage" where
  "tutorMsg feedback t =
     (case get_prop feedback ''feedback_message'' of
        Inl e \<Rightarrow> Inl e
      | Inr fm \<Rightarrow>
     (case ToString_opt fm of
        Inl e \<Rightarrow> Inl e
      | Inr a \<Rightarrow>
     (case get_prop feedback ''next_instruction'' of
        Inl e \<Rightarrow> Inl e
      | Inr ni \<Rightarrow>
     (case ToString_opt ni of
        Inl e \<Rightarrow> Inl e
      | Inr b \<Rightarrow>
     (case get_prop feedback ''evaluation_result'' of
        Inl e \<Rightarrow> Inl e
      | Inr er \<Rightarrow>
          Inr \<lparr>role = Tutor, content = a @ '' '' @ b, audioUrl = None, timestamp = t,
               feedbackType = as_FeedbackType er\<rparr>)))))"

text \<open>The arguments of the stage-2 call the handler makes from state \<open>s\<close>.\<close>

definition practice_call :: "InitialDiagnosis \<Rightarrow> App \<Rightarrow> nat \<Rightarrow> GatewayCall" where
  "practice_call d s t =
     EvaluatePracticeResponse
       (topic (new_practice_question d), question_text (new_practice_question d))
       (chatHistory s @ [userMsg s t]) (content (userMsg s t)) (replyAudio s)"

text \<open>
  The handler up to its \<^verbatim>\<open>await\<close>: the optimistic update, and the call issued.
\<close>

definition reply_sent :: "InitialDiagnosis \<Rightarrow> nat \<Rightarrow> App \<Rightarrow> App" where
  "reply_sent d t s =
     s\<lparr>chatHistory := chatHistory s @ [userMsg s t], replyText := [], replyAudio := None,
       isLoading := True, requests := requests s @ [practice_call d s t]\<rparr>"

text \<open>The \<^verbatim>\<open>catch\<close> and \<^verbatim>\<open>finally\<close> blocks of the handler.\<close>

definition reply_failed :: "js_error \<Rightarrow> App \<Rightarrow> App" where
  "reply_failed err s =
     s\<lparr>error := Some (message_or err ''Failed to get feedback.''), isLoading := False\<rparr>"

text \<open>
  The handler after the \<^verbatim>\<open>await\<close>, on the state the call finds when it settles. What
  raises inside the \<^verbatim>\<open>try\<close> block, the call or the building of the tutor message, is
  caught.
\<close>

definition reply_settled :: "js_error + json \<Rightarrow> nat \<Rightarrow> App \<Rightarrow> App" where
  "reply_settled outcome t s =
     (case outcome of
        Inl err \<Rightarrow> reply_failed err s
      | Inr feedback \<Rightarrow>
          (case tutorMsg feedback t of
             Inl err \<Rightarrow> reply_failed err s
           | Inr msg \<Rightarrow>
               s\<lparr>chatHistory := chatHistory s @ [msg],
                 isMasteryAchieved :=
                   (if get_prop feedback ''dialogue_action'' = Inr (Some (JStr ''MASTERY_ACHIEVED''))
                    then True else isMasteryAchieved s),
                 isLoading := False\<rparr>))"

definition handlePracticeReply :: "geminiService \<Rightarrow> nat \<Rightarrow> nat \<Rightarrow> App \<Rightarrow> App" where
  "handlePracticeReply gw now_user now_tutor s =
     (if (replyText s = [] \<and> replyAudio s = None) \<or> diagnosis s = None then s
      else case diagnosis s of
             None \<Rightarrow> s
           | Some d \<Rightarrow>
               reply_settled
                 (evaluatePracticeResponse_call gw
                    (topic (new_practice_question d), question_text (new_practice_question d))
                    (chatHistory s @ [userMsg s now_user]) (content (userMsg s now_user))
                    (replyAudio s))
                 now_tutor (reply_sent d now_user s))"

definition handleHistorySelect :: "HistoryItem \<Rightarrow> App \<Rightarrow> App" where
  "handleHistorySelect item s =
     s\<lparr>diagnosis := Some (InitialDiagnosis.truncate item), showHistory := False,
       chatHistory :=
         [first_instruction (InitialDiagnosis.next_instruction item) (HistoryItem.timestamp item)],
       image' := None, previewUrl := None, audioBlob := None, replyText := [],
       replyAudio := None, error := None, isMasteryAchieved := False\<rparr>"

text \<open>\<^verbatim>\<open>handleClearHistory\<close>; \<open>confirmed\<close> is the answer of \<^verbatim>\<open>window.confirm\<close>.\<close>

definition handleClearHistory :: "bool \<Rightarrow> App \<Rightarrow> App" where
  "handleClearHistory confirmed s =
     (if confirmed then s\<lparr>storage := clearHistory (storage s), history := JArr []\<rparr> else s)"

text \<open>The click handler of the buttons "Upload New Homework" and "Change".\<close>

definition uploadNewHomework :: "App \<Rightarrow> App" where
  "uploadNewHomework s =
     s\<lparr>image' := None, previewUrl := None, diagnosis := None, chatHistory := []\<rparr>"

subsection \<open>What is rendered\<close>

text \<open>
  The reply form (text area, recorder and Reply button) is rendered in the main view when
  a diagnosis is present and mastery is not achieved; the Reply button is disabled while
  loading or while there is neither text nor audio. Enter in the text area and a click on
  the enabled button both call \<^verbatim>\<open>handlePracticeReply\<close>.
\<close>

definition reply_form_rendered :: "App \<Rightarrow> bool" where
  "reply_form_rendered s = (\<not> showHistory s \<and> diagnosis s \<noteq> None \<and> \<not> isMasteryAchieved s)"

definition reply_button_enabled :: "App \<Rightarrow> bool" where
  "reply_button_enabled s =
     (reply_form_rendered s \<and> \<not> (isLoading s \<or> (replyText s = [] \<and> replyAudio s = None)))"

datatype ReplyEvent = PressEnter | ClickReply

definition submit_reply :: "ReplyEvent \<Rightarrow> geminiService \<Rightarrow> nat \<Rightarrow> nat \<Rightarrow> App \<Rightarrow> App" where
  "submit_reply ev gw now_user now_tutor s =
     (if (case ev of PressEnter \<Rightarrow> reply_form_rendered s | ClickReply \<Rightarrow> reply_button_enabled s)
      then handlePracticeReply gw now_user now_tutor s
      else s)"

subsection \<open>The states of the session\<close>

text \<open>
  The page tells the states of a session apart by two fields: without a diagnosis it shows
  the empty workspace (with "Diagnosing..." on the button while loading), with a diagnosis
  the transcript, followed by the reply form or, once mastery is achieved, by the mastery
  panel.
\<close>

datatype SessionState = Idle | Diagnosing | ActiveSession | MasteryAchieved

definition session_state :: "App \<Rightarrow> SessionState" where
  "session_state s =
     (case diagnosis s of
        None \<Rightarrow> (if isLoading s then Diagnosing else Idle)
      | Some d \<Rightarrow> (if isMasteryAchieved s then MasteryAchieved else ActiveSession))"

section \<open>Concrete inputs\<close>

definition initial_App :: App where
  "initial_App =
     \<lparr>image' = None, previewUrl = None, textInput = [], audioBlob = None, diagnosis = None,
      chatHistory = [], replyText = [], replyAudio = None, isMasteryAchieved = False,
      isLoading = False, error = None, history = JArr [], showHistory = False,
      storage = empty_store, requests = []\<rparr>"

definition example_diagnosis :: InitialDiagnosis where
  "example_diagnosis =
     \<lparr>stage = INITIAL_DIAGNOSIS,
      conceptual_misunderstanding = ''mass and weight are mixed up'',
      new_practice_question =
        \<lparr>subject = None, topic = ''Newton'', question_text = ''A 2 kg cart is pushed with 20 N.''\<rparr>,
      tutor_feedback = ''Good start.'',
      next_instruction = ''Which law links force and acceleration?'',
      diagnosed_error_step = Some ''Concept Error'',
      status = Some ''Diagnosis''\<rparr>"

definition example_item :: HistoryItem where
  "example_item = newItem example_diagnosis ''no idea'' 1234567 ''k3x'' 1234568"

definition example_feedback :: "DialogueAction \<Rightarrow> FeedbackResult" where
  "example_feedback action =
     \<lparr>FeedbackResult.stage = CONVERSATIONAL_FEEDBACK, evaluation_result = CORRECT,
      feedback_message = ''Right.'', dialogue_action = action,
      FeedbackResult.next_instruction = ''Now state the unit.''\<rparr>"

definition example_service :: "DialogueAction \<Rightarrow> geminiService" where
  "example_service action =
     \<lparr>analyzeHomework_call = (\<lambda>img txt audio. Inr example_diagnosis),
      evaluatePracticeResponse_call =
        (\<lambda>ctx hist input audio. Inr (FeedbackResult_json (example_feedback action)))\<rparr>"

definition failing_service :: geminiService where
  "failing_service =
     \<lparr>analyzeHomework_call = (\<lambda>img txt audio. Inl (Error ''Failed to diagnose homework.'')),
      evaluatePracticeResponse_call =
        (\<lambda>ctx hist input audio. Inl (Error ''Failed to evaluate answer.''))\<rparr>"

definition example_jpeg :: File where
  "example_jpeg = \<lparr>size' = 2097152, type' = ''image/jpeg'', name = ''homework.jpg''\<rparr>"

definition example_pdf :: File where
  "example_pdf = \<lparr>size' = 2097152, type' = ''application/pdf'', name = ''homework.pdf''\<rparr>"

text \<open>An active session with a typed reply waiting to be sent, and the same with the
  mastery flag set.\<close>

definition active_app :: App where
  "active_app =
     initial_App\<lparr>diagnosis := Some example_diagnosis,
       chatHistory := [first_instruction ''Which law links force and acceleration?'' 1000],
       replyText := ''F = ma, so a = 10''\<rparr>"

definition mastered_app :: App where
  "mastered_app = active_app\<lparr>isMasteryAchieved := True\<rparr>"

text \<open>A platform whose service answers with an object that has two of the five fields.\<close>

definition partial_answer :: json where
  "partial_answer = JObj [(''stage'', JStr ''INITIAL_DIAGNOSIS''), (''tutor_feedback'', JStr ''ok'')]"

definition example_platform :: "jtext option \<Rightarrow> Platform" where
  "example_platform answer =
     \<lparr>API_KEY = Some ''secret'',
      fileToGenerativePart = (\<lambda>f. Inr ''aGVsbG8=''),
      blobToGenerativePart = (\<lambda>b. Inr ''d29ybGQ=''),
      generateContent = (\<lambda>request. Inr answer)\<rparr>"

text \<open>A service whose stage-2 operation is the gateway's, on a platform that answers with
  the text \<^verbatim>\<open>null\<close>.\<close>

definition null_service :: geminiService where
  "null_service =
     \<lparr>analyzeHomework_call = (\<lambda>img txt audio. Inr example_diagnosis),
      evaluatePracticeResponse_call = evaluatePracticeResponse (example_platform (Some (JSON JNull)))\<rparr>"

section \<open>Facts about the history store\<close>

lemma getHistory_empty_store: "getHistory empty_store = JArr []"
  by (simp add: getHistory_def empty_store_def getItem_def)

lemma saveToHistory_step:
  assumes "\<not> getItem_throws ls" and "\<not> setItem_throws ls" and "getHistory ls = JArr xs"
  shows "\<exists>ls'. saveToHistory r u a b c ls = Inr (newItem r u a b c, ls')
           \<and> items ls' HISTORY_KEY
               = Some (JSON (JArr (take 50 (HistoryItem_json (newItem r u a b c) # xs))))
           \<and> getHistory ls' = JArr (take 50 (HistoryItem_json (newItem r u a b c) # xs))
           \<and> \<not> getItem_throws ls' \<and> \<not> setItem_throws ls'"
  using assms
  by (simp add: saveToHistory_def Let_def setItem_def getHistory_def getItem_def
      JSON_stringify_def)

lemma take_append_take: "take n (xs @ take n ys) = take n (xs @ ys)"
  by (simp add: min_def)

lemma record_all_general:
  assumes "\<not> getItem_throws ls" and "\<not> setItem_throws ls" and "getHistory ls = JArr xs"
  shows "\<exists>ls'. record_all cs ls = Inr ls'
           \<and> getHistory ls'
               = JArr (if cs = [] then xs else take 50 (rev (map recorded cs) @ xs))
           \<and> items ls' HISTORY_KEY
               = (if cs = [] then items ls HISTORY_KEY
                  else Some (JSON (JArr (take 50 (rev (map recorded cs) @ xs)))))
           \<and> \<not> getItem_throws ls' \<and> \<not> setItem_throws ls'"
  using assms
proof (induction cs arbitrary: ls xs)
  case Nil
  then show ?case by simp
next
  case (Cons c cs)
  obtain r u a b t where c: "c = (r, u, a, b, t)"
    by (cases c)
  from saveToHistory_step [OF Cons.prems, of r u a b t] obtain ls1 where
    s: "saveToHistory r u a b t ls = Inr (newItem r u a b t, ls1)"
    and i: "items ls1 HISTORY_KEY = Some (JSON (JArr (take 50 (recorded c # xs))))"
    and h: "getHistory ls1 = JArr (take 50 (recorded c # xs))"
    and f: "\<not> getItem_throws ls1" "\<not> setItem_throws ls1"
    by (auto simp: c)
  from Cons.IH [OF f h] obtain ls' where r:
    "record_all cs ls1 = Inr ls'"
    "getHistory ls'
       = JArr (if cs = [] then take 50 (recorded c # xs)
               else take 50 (rev (map recorded cs) @ take 50 (recorded c # xs)))"
    "items ls' HISTORY_KEY
       = (if cs = [] then items ls1 HISTORY_KEY
          else Some (JSON (JArr (take 50 (rev (map recorded cs) @ take 50 (recorded c # xs))))))"
    "\<not> getItem_throws ls'" "\<not> setItem_throws ls'"
    by blast
  have eq: "take 50 (rev (map recorded cs) @ take 50 (recorded c # xs))
      = take 50 (rev (map recorded (c # cs)) @ xs)"
  proof -
    have "rev (map recorded (c # cs)) @ xs = rev (map recorded cs) @ (recorded c # xs)"
      by simp
    then show ?thesis
      by (simp only: take_append_take)
  qed
  have "record_all (c # cs) ls = Inr ls'"
    using s r(1) by (simp add: c)
  moreover have "getHistory ls' = JArr (take 50 (rev (map recorded (c # cs)) @ xs))"
  proof (cases "cs = []")
    case True
    with r(2) show ?thesis by simp
  next
    case False
    with r(2) eq show ?thesis by (simp only: if_False)
  qed
  moreover have "items ls' HISTORY_KEY
      = Some (JSON (JArr (take 50 (rev (map recorded (c # cs)) @ xs))))"
  proof (cases "cs = []")
    case True
    with r(3) i show ?thesis by simp
  next
    case False
    with r(3) eq show ?thesis by (simp only: if_False)
  qed
  ultimately show ?case
    using r(4,5) by simp
qed

text \<open>
  Claim C3. After any finite sequence of \<^verbatim>\<open>saveToHistory\<close> calls on the empty store, every
  call succeeds, and the persisted array (absent when no call was made) holds at most 50
  items: the items of the last 50 calls, the most recent first. The item of the first of 51
  calls is therefore not retained.
\<close>

theorem history_keeps_fifty_most_recent:
  "\<exists>ls xs. record_all cs empty_store = Inr ls
      \<and> getHistory ls = JArr xs
      \<and> items ls HISTORY_KEY = (if cs = [] then None else Some (JSON (JArr xs)))
      \<and> length xs \<le> 50
      \<and> xs = map recorded (rev (drop (length cs - 50) cs))"
proof -
  have e: "\<not> getItem_throws empty_store" "\<not> setItem_throws empty_store"
    by (simp_all add: empty_store_def)
  from record_all_general [OF e getHistory_empty_store, of cs] obtain ls where r:
    "record_all cs empty_store = Inr ls"
    "getHistory ls = JArr (if cs = [] then [] else take 50 (rev (map recorded cs) @ []))"
    "items ls HISTORY_KEY
       = (if cs = [] then items empty_store HISTORY_KEY
          else Some (JSON (JArr (take 50 (rev (map recorded cs) @ [])))))"
    by blast
  let ?xs = "take 50 (rev (map recorded cs))"
  have "getHistory ls = JArr ?xs"
    using r(2) by (cases "cs = []") simp_all
  moreover have "items ls HISTORY_KEY = (if cs = [] then None else Some (JSON (JArr ?xs)))"
    using r(3) by (cases "cs = []") (simp_all add: empty_store_def)
  moreover have "?xs = map recorded (rev (drop (length cs - 50) cs))"
    by (simp add: rev_map take_map take_rev)
  moreover have "length ?xs \<le> 50"
    by simp
  ultimately have "record_all cs empty_store = Inr ls
      \<and> getHistory ls = JArr ?xs
      \<and> items ls HISTORY_KEY = (if cs = [] then None else Some (JSON (JArr ?xs)))
      \<and> length ?xs \<le> 50
      \<and> ?xs = map recorded (rev (drop (length cs - 50) cs))"
    using r(1) by simp
  then show ?thesis
    by blast
qed

text \<open>
  Claim C7. On a readable and writable store whose history reads as the array \<open>xs\<close> (an
  absent or unparsable entry reads as the empty array), any sequence of \<^verbatim>\<open>saveToHistory\<close>
  calls succeeds and leaves the first 50 of: the recorded items, the most recent first,
  followed by \<open>xs\<close> in its order. So the item recorded last is first, and the items
  recorded before keep their relative order.
\<close>

theorem record_keeps_order:
  assumes "\<not> getItem_throws ls" and "\<not> setItem_throws ls" and "getHistory ls = JArr xs"
  shows "\<exists>ls'. record_all cs ls = Inr ls'
           \<and> getHistory ls'
               = JArr (if cs = [] then xs else take 50 (rev (map recorded cs) @ xs))
           \<and> (cs \<noteq> [] \<longrightarrow>
                getHistory ls'
                  = JArr (recorded (last cs) # take 49 (rev (map recorded (butlast cs)) @ xs)))"
proof -
  from record_all_general [OF assms, of cs] obtain ls' where r:
    "record_all cs ls = Inr ls'"
    "getHistory ls' = JArr (if cs = [] then xs else take 50 (rev (map recorded cs) @ xs))"
    by blast
  have "take 50 (rev (map recorded cs) @ xs)
      = recorded (last cs) # take 49 (rev (map recorded (butlast cs)) @ xs)" if "cs \<noteq> []"
  proof -
    from that have "cs = butlast cs @ [last cs]"
      by simp
    then have "map recorded cs = map recorded (butlast cs) @ [recorded (last cs)]"
      by (metis map_append list.simps(8,9))
    then have "rev (map recorded cs) = recorded (last cs) # rev (map recorded (butlast cs))"
      by (simp only: rev_append rev.simps append_Cons append_Nil)
    then show ?thesis
      by simp
  qed
  with r show ?thesis
    by auto
qed

theorem record_keeps_order_witness:
  "\<exists>ls'. record_all [(example_diagnosis, ''first'', 1, ''a'', 1), (example_diagnosis, ''second'', 2, ''b'', 2)]
             (empty_store\<lparr>items := [HISTORY_KEY \<mapsto> JSON (JArr [JStr ''old''])]\<rparr>) = Inr ls'
      \<and> getHistory ls'
          = JArr [recorded (example_diagnosis, ''second'', 2, ''b'', 2),
                  recorded (example_diagnosis, ''first'', 1, ''a'', 1), JStr ''old'']"
  using record_keeps_order
    [of "empty_store\<lparr>items := [HISTORY_KEY \<mapsto> JSON (JArr [JStr ''old''])]\<rparr>" "[JStr ''old'']"
        "[(example_diagnosis, ''first'', 1, ''a'', 1), (example_diagnosis, ''second'', 2, ''b'', 2)]"]
  by (simp add: empty_store_def getHistory_def getItem_def)

text \<open>
  What does hold of a bad entry: when the entry is absent, is the empty string, is not
  JSON, or cannot be read, \<^verbatim>\<open>saveToHistory\<close> on a writable store takes the history as empty
  and writes the array of the one new item.
\<close>

lemma saveToHistory_unparsable_entry:
  assumes "getItem_throws ls \<or> items ls HISTORY_KEY = None
           \<or> (\<exists>t. items ls HISTORY_KEY = Some (NotJSON t))"
    and "\<not> setItem_throws ls"
  shows "saveToHistory r u a b c ls
           = Inr (newItem r u a b c,
                  ls\<lparr>items := (items ls)
                       (HISTORY_KEY \<mapsto> JSON (JArr [HistoryItem_json (newItem r u a b c)]))\<rparr>)"
proof -
  from assms(1) have "getHistory ls = JArr []"
    by (auto simp: getHistory_def getItem_def)
  with assms(2) show ?thesis
    by (simp add: saveToHistory_def Let_def setItem_def JSON_stringify_def)
qed

text \<open>
  Claim C10. The claim fails on the code where the stored entry parses to a value that is
  not an array: with the entry \<^verbatim>\<open>{}\<close>, \<^verbatim>\<open>getHistory\<close> returns the parsed object, the spread
  in \<^verbatim>\<open>saveToHistory\<close> raises, and nothing is written.
\<close>

theorem saveToHistory_raises_on_object_entry:
  "saveToHistory example_diagnosis ''no idea'' 1234567 ''k3x'' 1234568
     (empty_store\<lparr>items := [HISTORY_KEY \<mapsto> JSON (JObj [])]\<rparr>)
   = Inl (TypeError ''history is not iterable'')"
  by (simp add: saveToHistory_def getHistory_def getItem_def empty_store_def Let_def)

section \<open>Facts about the gateway\<close>

lemma has_prop_set_prop: "has_prop k (set_prop k' v ps) = (k = k' \<or> has_prop k ps)"
  by (induction ps) auto

lemma required_fields_kept:
  "has_required_fields (own_props (assign ''status'' a (assign ''diagnosed_error_step'' b obj)))
     = has_required_fields (own_props obj)"
  by (cases obj) (simp_all add: has_required_fields_def diagnosisSchema_def has_prop_set_prop)

text \<open>
  Claim C1, as stated, fails: when the service answers with an object that has only two of
  the five fields, \<^verbatim>\<open>analyzeHomework\<close> returns that object with the two compatibility
  fields added, not an error. And without a credential it fails before the call, with the
  configuration error and not the gateway error.
\<close>

theorem analyzeHomework_partial_object_counterexample:
  "analyzeHomework (example_platform (Some (JSON partial_answer))) (Some example_jpeg) [] None
     = Inr (Object [(''stage'', JStr ''INITIAL_DIAGNOSIS''), (''tutor_feedback'', JStr ''ok''),
                    (''diagnosed_error_step'', JStr ''Concept Error''),
                    (''status'', JStr ''Diagnosis'')])
   \<and> \<not> has_required_fields
         [(''stage'', JStr ''INITIAL_DIAGNOSIS''), (''tutor_feedback'', JStr ''ok''),
          (''diagnosed_error_step'', JStr ''Concept Error''), (''status'', JStr ''Diagnosis'')]
   \<and> analyzeHomework ((example_platform None)\<lparr>API_KEY := None\<rparr>) (Some example_jpeg) [] None
       = Inl (Error ''API Key is missing. Please set process.env.API_KEY.'')"
  by (simp add: analyzeHomework_def example_platform_def partial_answer_def example_jpeg_def
      image_parts_def audio_parts_def parse_diagnosis_def diagnosis_request_def
      has_required_fields_def diagnosisSchema_def missing_key_def)

text \<open>
  Claim C1, amended. For every image, text context and audio input:
  without a credential \<^verbatim>\<open>analyzeHomework\<close> fails with the configuration error; with one, a
  failing image or audio encoder makes it fail with the encoder's error; otherwise it sends
  the request built from the prompt, the image part and the audio part, and
  \<^item> fails with the gateway error "Failed to diagnose homework." when the call raises,
    when the response has no text or an empty one, when the text is not JSON, and when it
    parses to \<^verbatim>\<open>null\<close>, a boolean, a number or a string;
  \<^item> returns the parsed object, with \<^verbatim>\<open>diagnosed_error_step\<close> and \<^verbatim>\<open>status\<close> set on it, when
    the text parses to an object (an array is returned the same way). The object returned
    has the five required fields exactly when the parsed object has them: nothing is
    checked locally.
\<close>

theorem analyzeHomework_returns_parsed_or_fails:
  "(API_KEY P = None \<or> API_KEY P = Some []
      \<longrightarrow> analyzeHomework P img ctx aud
            = Inl (Error ''API Key is missing. Please set process.env.API_KEY.''))
   \<and> (\<forall>k. API_KEY P = Some k \<and> k \<noteq> [] \<longrightarrow>
        (\<forall>f e. img = Some f \<and> fileToGenerativePart P f = Inl e
            \<longrightarrow> analyzeHomework P img ctx aud = Inl e)
      \<and> (\<forall>b e. (img = None \<or> (\<exists>f d. img = Some f \<and> fileToGenerativePart P f = Inr d))
            \<and> aud = Some b \<and> blobToGenerativePart P b = Inl e
            \<longrightarrow> analyzeHomework P img ctx aud = Inl e)
      \<and> (\<forall>ips aps.
            ((img = None \<and> ips = [])
             \<or> (\<exists>f d. img = Some f \<and> fileToGenerativePart P f = Inr d
                   \<and> ips = [InlineData (type' f) d]))
            \<and> ((aud = None \<and> aps = [])
               \<or> (\<exists>b d. aud = Some b \<and> blobToGenerativePart P b = Inr d
                     \<and> aps = [InlineData ''audio/wav'' d]))
            \<longrightarrow>
            (case generateContent P
                    \<lparr>model = ''gemini-2.5-flash'',
                     parts = TextPart (DiagnosisPrompt
                                (if ctx = [] then ''No specific text provided.'' else ctx))
                             # ips @ aps,
                     responseMimeType = ''application/json'',
                     responseSchema = diagnosisSchema\<rparr> of
               Inl e \<Rightarrow>
                 analyzeHomework P img ctx aud = Inl (Error ''Failed to diagnose homework.'')
             | Inr None \<Rightarrow>
                 analyzeHomework P img ctx aud = Inl (Error ''Failed to diagnose homework.'')
             | Inr (Some (NotJSON t)) \<Rightarrow>
                 analyzeHomework P img ctx aud = Inl (Error ''Failed to diagnose homework.'')
             | Inr (Some (JSON v)) \<Rightarrow>
                 (case v of
                    JObj ps \<Rightarrow>
                      analyzeHomework P img ctx aud
                        = Inr (Object (set_prop ''status'' (JStr ''Diagnosis'')
                                 (set_prop ''diagnosed_error_step'' (JStr ''Concept Error'') ps)))
                      \<and> has_required_fields
                            (set_prop ''status'' (JStr ''Diagnosis'')
                               (set_prop ''diagnosed_error_step'' (JStr ''Concept Error'') ps))
                          = has_required_fields ps
                  | JArr xs \<Rightarrow>
                      analyzeHomework P img ctx aud
                        = Inr (Array xs [(''diagnosed_error_step'', JStr ''Concept Error''),
                                         (''status'', JStr ''Diagnosis'')])
                  | _ \<Rightarrow>
                      analyzeHomework P img ctx aud
                        = Inl (Error ''Failed to diagnose homework.'')))))"
proof -
  have key: "analyzeHomework P img ctx aud
        = Inl (Error ''API Key is missing. Please set process.env.API_KEY.'')"
    if "API_KEY P = None \<or> API_KEY P = Some []"
    using that by (auto simp: analyzeHomework_def missing_key_def)
  have image: "analyzeHomework P img ctx aud = Inl e"
    if "API_KEY P = Some k" "k \<noteq> []" "img = Some f" "fileToGenerativePart P f = Inl e"
    for k f e
    using that by (simp add: analyzeHomework_def image_parts_def)
  have audio: "analyzeHomework P img ctx aud = Inl e"
    if "API_KEY P = Some k" "k \<noteq> []"
      "img = None \<or> (\<exists>f d. img = Some f \<and> fileToGenerativePart P f = Inr d)"
      "aud = Some b" "blobToGenerativePart P b = Inl e"
    for k b e
    using that by (auto simp: analyzeHomework_def image_parts_def audio_parts_def)
  have call: "case generateContent P
                    \<lparr>model = ''gemini-2.5-flash'',
                     parts = TextPart (DiagnosisPrompt
                                (if ctx = [] then ''No specific text provided.'' else ctx))
                             # ips @ aps,
                     responseMimeType = ''application/json'',
                     responseSchema = diagnosisSchema\<rparr> of
               Inl e \<Rightarrow>
                 analyzeHomework P img ctx aud = Inl (Error ''Failed to diagnose homework.'')
             | Inr None \<Rightarrow>
                 analyzeHomework P img ctx aud = Inl (Error ''Failed to diagnose homework.'')
             | Inr (Some (NotJSON t)) \<Rightarrow>
                 analyzeHomework P img ctx aud = Inl (Error ''Failed to diagnose homework.'')
             | Inr (Some (JSON v)) \<Rightarrow>
                 (case v of
                    JObj ps \<Rightarrow>
                      analyzeHomework P img ctx aud
                        = Inr (Object (set_prop ''status'' (JStr ''Diagnosis'')
                                 (set_prop ''diagnosed_error_step'' (JStr ''Concept Error'') ps)))
                      \<and> has_required_fields
                            (set_prop ''status'' (JStr ''Diagnosis'')
                               (set_prop ''diagnosed_error_step'' (JStr ''Concept Error'') ps))
                          = has_required_fields ps
                  | JArr xs \<Rightarrow>
                      analyzeHomework P img ctx aud
                        = Inr (Array xs [(''diagnosed_error_step'', JStr ''Concept Error''),
                                         (''status'', JStr ''Diagnosis'')])
                  | _ \<Rightarrow>
                      analyzeHomework P img ctx aud
                        = Inl (Error ''Failed to diagnose homework.''))"
    if k: "API_KEY P = Some k" "k \<noteq> []"
      and i: "(img = None \<and> ips = [])
             \<or> (\<exists>f d. img = Some f \<and> fileToGenerativePart P f = Inr d
                   \<and> ips = [InlineData (type' f) d])"
      and a: "(aud = None \<and> aps = [])
             \<or> (\<exists>b d. aud = Some b \<and> blobToGenerativePart P b = Inr d
                   \<and> aps = [InlineData ''audio/wav'' d])"
    for k ips aps
  proof -
    let ?request = "\<lparr>model = ''gemini-2.5-flash'',
                     parts = TextPart (DiagnosisPrompt
                                (if ctx = [] then ''No specific text provided.'' else ctx))
                             # ips @ aps,
                     responseMimeType = ''application/json'',
                     responseSchema = diagnosisSchema\<rparr>"
    from i have ip: "image_parts P img = Inr ips"
      by (auto simp: image_parts_def)
    from a have ap: "audio_parts P aud = Inr aps"
      by (auto simp: audio_parts_def)
    have r: "analyzeHomework P img ctx aud
        = (case parse_diagnosis (generateContent P ?request) of
             Inl e \<Rightarrow> Inl diagnose_failed
           | Inr data \<Rightarrow> Inr data)"
      using k ip ap by (simp add: analyzeHomework_def Let_def diagnosis_request_def)
    have kept: "has_required_fields
          (set_prop ''status'' (JStr ''Diagnosis'')
             (set_prop ''diagnosed_error_step'' (JStr ''Concept Error'') ps))
        = has_required_fields ps" for ps
      using required_fields_kept [of "JStr ''Diagnosis''" "JStr ''Concept Error''" "Object ps"]
      by simp
    show ?thesis
    proof (cases "generateContent P ?request")
      case (Inl e)
      then show ?thesis
        by (simp add: r parse_diagnosis_def diagnose_failed_def)
    next
      case (Inr answer)
      show ?thesis
      proof (cases answer)
        case None
        with Inr show ?thesis
          by (simp add: r parse_diagnosis_def diagnose_failed_def)
      next
        case (Some t)
        show ?thesis
        proof (cases t)
          case (NotJSON u)
          with Inr Some show ?thesis
            by (simp add: r parse_diagnosis_def diagnose_failed_def)
        next
          case (JSON v)
          with Inr Some show ?thesis
            by (cases v) (simp_all add: r parse_diagnosis_def diagnose_failed_def kept)
        qed
      qed
    qed
  qed
  show ?thesis
  proof (intro conjI allI impI)
    assume "API_KEY P = None \<or> API_KEY P = Some []"
    then show "analyzeHomework P img ctx aud
        = Inl (Error ''API Key is missing. Please set process.env.API_KEY.'')"
      by (rule key)
  next
    fix k f e
    assume "API_KEY P = Some k \<and> k \<noteq> []" "img = Some f \<and> fileToGenerativePart P f = Inl e"
    then show "analyzeHomework P img ctx aud = Inl e"
      using image [of k f e] by simp
  next
    fix k b e
    assume "API_KEY P = Some k \<and> k \<noteq> []"
      "(img = None \<or> (\<exists>f d. img = Some f \<and> fileToGenerativePart P f = Inr d))
         \<and> aud = Some b \<and> blobToGenerativePart P b = Inl e"
    then show "analyzeHomework P img ctx aud = Inl e"
      using audio [of k b e] by simp
  next
    fix k ips aps
    assume "API_KEY P = Some k \<and> k \<noteq> []"
      "((img = None \<and> ips = [])
             \<or> (\<exists>f d. img = Some f \<and> fileToGenerativePart P f = Inr d
                   \<and> ips = [InlineData (type' f) d]))
            \<and> ((aud = None \<and> aps = [])
               \<or> (\<exists>b d. aud = Some b \<and> blobToGenerativePart P b = Inr d
                     \<and> aps = [InlineData ''audio/wav'' d]))"
    then have "API_KEY P = Some k" "k \<noteq> []"
      "(img = None \<and> ips = [])
             \<or> (\<exists>f d. img = Some f \<and> fileToGenerativePart P f = Inr d
                   \<and> ips = [InlineData (type' f) d])"
      "(aud = None \<and> aps = [])
               \<or> (\<exists>b d. aud = Some b \<and> blobToGenerativePart P b = Inr d
                     \<and> aps = [InlineData ''audio/wav'' d])"
      by simp_all
    then show "case generateContent P
                    \<lparr>model = ''gemini-2.5-flash'',
                     parts = TextPart (DiagnosisPrompt
                                (if ctx = [] then ''No specific text provided.'' else ctx))
                             # ips @ aps,
                     responseMimeType = ''application/json'',
                     responseSchema = diagnosisSchema\<rparr> of
               Inl e \<Rightarrow>
                 analyzeHomework P img ctx aud = Inl (Error ''Failed to diagnose homework.'')
             | Inr None \<Rightarrow>
                 analyzeHomework P img ctx aud = Inl (Error ''Failed to diagnose homework.'')
             | Inr (Some (NotJSON t)) \<Rightarrow>
                 analyzeHomework P img ctx aud = Inl (Error ''Failed to diagnose homework.'')
             | Inr (Some (JSON v)) \<Rightarrow>
                 (case v of
                    JObj ps \<Rightarrow>
                      analyzeHomework P img ctx aud
                        = Inr (Object (set_prop ''status'' (JStr ''Diagnosis'')
                                 (set_prop ''diagnosed_error_step'' (JStr ''Concept Error'') ps)))
                      \<and> has_required_fields
                            (set_prop ''status'' (JStr ''Diagnosis'')
                               (set_prop ''diagnosed_error_step'' (JStr ''Concept Error'') ps))
                          = has_required_fields ps
                  | JArr xs \<Rightarrow>
                      analyzeHomework P img ctx aud
                        = Inr (Array xs [(''diagnosed_error_step'', JStr ''Concept Error''),
                                         (''status'', JStr ''Diagnosis'')])
                  | _ \<Rightarrow>
                      analyzeHomework P img ctx aud
                        = Inl (Error ''Failed to diagnose homework.''))"
      by (rule call)
  qed
qed

theorem analyzeHomework_returns_parsed_or_fails_witness:
  "analyzeHomework ((example_platform None)\<lparr>API_KEY := None\<rparr>) (Some example_jpeg) [] None
     = Inl (Error ''API Key is missing. Please set process.env.API_KEY.'')
   \<and> analyzeHomework
        ((example_platform None)\<lparr>fileToGenerativePart := (\<lambda>f. Inl (Error ''unreadable''))\<rparr>)
        (Some example_jpeg) [] None
       = Inl (Error ''unreadable'')
   \<and> analyzeHomework (example_platform None) (Some example_jpeg) [] None
       = Inl (Error ''Failed to diagnose homework.'')
   \<and> analyzeHomework (example_platform (Some (NotJSON ''oops''))) (Some example_jpeg) [] None
       = Inl (Error ''Failed to diagnose homework.'')
   \<and> analyzeHomework (example_platform (Some (JSON JNull))) (Some example_jpeg) [] None
       = Inl (Error ''Failed to diagnose homework.'')
   \<and> analyzeHomework (example_platform (Some (JSON partial_answer))) (Some example_jpeg) [] None
       = Inr (Object [(''stage'', JStr ''INITIAL_DIAGNOSIS''), (''tutor_feedback'', JStr ''ok''),
                      (''diagnosed_error_step'', JStr ''Concept Error''),
                      (''status'', JStr ''Diagnosis'')])"
proof -
  note T = analyzeHomework_returns_parsed_or_fails
             [where img = "Some example_jpeg" and ctx = "[]" and aud = None]
  have key: "API_KEY (example_platform answer) = Some ''secret'' \<and> ''secret'' \<noteq> []" for answer
    by (simp add: example_platform_def)
  have parts:
    "((Some example_jpeg = None \<and> [InlineData ''image/jpeg'' ''aGVsbG8=''] = [])
       \<or> (\<exists>f d. Some example_jpeg = Some f
             \<and> fileToGenerativePart (example_platform answer) f = Inr d
             \<and> [InlineData ''image/jpeg'' ''aGVsbG8=''] = [InlineData (type' f) d]))
     \<and> (((None :: Blob option) = None \<and> ([] :: Part list) = [])
       \<or> (\<exists>b d. (None :: Blob option) = Some b
             \<and> blobToGenerativePart (example_platform answer) b = Inr d
             \<and> ([] :: Part list) = [InlineData ''audio/wav'' d]))" for answer
    by (simp add: example_platform_def example_jpeg_def)
  note call = T [THEN conjunct2, rule_format, OF key, THEN conjunct2, THEN conjunct2,
                 rule_format, OF parts]
  have a: "analyzeHomework ((example_platform None)\<lparr>API_KEY := None\<rparr>) (Some example_jpeg) [] None
      = Inl (Error ''API Key is missing. Please set process.env.API_KEY.'')"
    by (rule T [THEN conjunct1, rule_format]) simp
  have unreadable:
    "API_KEY ((example_platform None)\<lparr>fileToGenerativePart := (\<lambda>f. Inl (Error ''unreadable''))\<rparr>)
       = Some ''secret'' \<and> ''secret'' \<noteq> []"
    "Some example_jpeg = Some example_jpeg
     \<and> fileToGenerativePart
          ((example_platform None)\<lparr>fileToGenerativePart := (\<lambda>f. Inl (Error ''unreadable''))\<rparr>)
          example_jpeg
        = Inl (Error ''unreadable'')"
    by (simp_all add: example_platform_def)
  have b: "analyzeHomework
        ((example_platform None)\<lparr>fileToGenerativePart := (\<lambda>f. Inl (Error ''unreadable''))\<rparr>)
        (Some example_jpeg) [] None
      = Inl (Error ''unreadable'')"
    by (rule T [THEN conjunct2, rule_format, OF unreadable(1), THEN conjunct1, rule_format,
                OF unreadable(2)])
  have c: "analyzeHomework (example_platform None) (Some example_jpeg) [] None
      = Inl (Error ''Failed to diagnose homework.'')"
    using call [of None] by (simp add: example_platform_def)
  have d: "analyzeHomework (example_platform (Some (NotJSON ''oops''))) (Some example_jpeg) [] None
      = Inl (Error ''Failed to diagnose homework.'')"
    using call [of "Some (NotJSON ''oops'')"] by (simp add: example_platform_def)
  have e: "analyzeHomework (example_platform (Some (JSON JNull))) (Some example_jpeg) [] None
      = Inl (Error ''Failed to diagnose homework.'')"
    using call [of "Some (JSON JNull)"] by (simp add: example_platform_def)
  have f: "analyzeHomework (example_platform (Some (JSON partial_answer))) (Some example_jpeg) [] None
      = Inr (Object [(''stage'', JStr ''INITIAL_DIAGNOSIS''), (''tutor_feedback'', JStr ''ok''),
                     (''diagnosed_error_step'', JStr ''Concept Error''),
                     (''status'', JStr ''Diagnosis'')])"
    using call [of "Some (JSON partial_answer)"]
    by (simp add: example_platform_def partial_answer_def)
  from a b c d e f show ?thesis
    by (intro conjI)
qed

section \<open>Facts about the session\<close>

lemma validateFile_Some:
  assumes "type' f \<notin> {''image/jpeg'', ''image/png'', ''image/webp''}
           \<or> size' f > 10 * 1024 * 1024"
  shows "\<exists>msg. validateFile f = Some msg"
  using assms
  by (auto simp: validateFile_def ALLOWED_TYPES_def MAX_FILE_SIZE_BYTES_def MAX_FILE_SIZE_MB_def)

text \<open>
  Claim C8. A file whose type is not JPEG, PNG or WebP, or whose size is over 10 MB, is
  rejected by \<^verbatim>\<open>validateFile\<close> with a message; \<^verbatim>\<open>handleImageUpload\<close> and \<^verbatim>\<open>handleDrop\<close> then
  only set the error message: no gateway call is made and diagnosis, transcript and
  mastery flag are as before.
\<close>

theorem invalid_upload_rejected_locally:
  assumes "type' f \<notin> {''image/jpeg'', ''image/png'', ''image/webp''}
           \<or> size' f > 10 * 1024 * 1024"
  shows "\<exists>msg. validateFile f = Some msg
           \<and> handleImageUpload (f # rest) url s = s\<lparr>error := Some msg\<rparr>
           \<and> handleDrop (f # rest) url s = s\<lparr>error := Some msg\<rparr>
           \<and> requests (handleImageUpload (f # rest) url s) = requests s
           \<and> diagnosis (handleImageUpload (f # rest) url s) = diagnosis s
           \<and> chatHistory (handleImageUpload (f # rest) url s) = chatHistory s
           \<and> isMasteryAchieved (handleImageUpload (f # rest) url s) = isMasteryAchieved s"
proof -
  from validateFile_Some [OF assms] obtain msg where "validateFile f = Some msg"
    by blast
  then show ?thesis
    by (simp add: handleImageUpload_def handleDrop_def)
qed

theorem invalid_upload_rejected_locally_witness:
  "(\<exists>msg. validateFile example_pdf = Some msg
      \<and> handleImageUpload [example_pdf] ''blob:1'' active_app = active_app\<lparr>error := Some msg\<rparr>
      \<and> requests (handleImageUpload [example_pdf] ''blob:1'' active_app) = [])
   \<and> (\<exists>msg. validateFile (example_jpeg\<lparr>size' := 10485761\<rparr>) = Some msg
      \<and> handleDrop [example_jpeg\<lparr>size' := 10485761\<rparr>] ''blob:2'' active_app
          = active_app\<lparr>error := Some msg\<rparr>)"
  using invalid_upload_rejected_locally
          [where f = example_pdf and rest = "[]" and url = "''blob:1''" and s = active_app]
        invalid_upload_rejected_locally
          [where f = "example_jpeg\<lparr>size' := 10485761\<rparr>" and rest = "[]"
             and url = "''blob:2''" and s = active_app]
  by (auto simp: example_pdf_def example_jpeg_def active_app_def initial_App_def)

text \<open>
  Claim C9. With no active diagnosis, or with an empty reply text and no reply audio,
  \<^verbatim>\<open>handlePracticeReply\<close> returns the state it was given: no message is appended, no gateway
  call is recorded, nothing changes.
\<close>

theorem practice_reply_guard_is_noop:
  assumes "diagnosis s = None \<or> (replyText s = [] \<and> replyAudio s = None)"
  shows "handlePracticeReply gw now_user now_tutor s = s"
  using assms by (auto simp: handlePracticeReply_def)

theorem practice_reply_guard_is_noop_witness:
  "handlePracticeReply (example_service CONTINUE) 2000 3000 initial_App = initial_App
   \<and> handlePracticeReply (example_service CONTINUE) 2000 3000 (active_app\<lparr>replyText := []\<rparr>)
       = active_app\<lparr>replyText := []\<rparr>"
  using practice_reply_guard_is_noop
          [where s = initial_App and gw = "example_service CONTINUE" and now_user = 2000
             and now_tutor = 3000]
        practice_reply_guard_is_noop
          [where s = "active_app\<lparr>replyText := []\<rparr>" and gw = "example_service CONTINUE"
             and now_user = 2000 and now_tutor = 3000]
  by (simp add: initial_App_def active_app_def)

text \<open>
  Claim C4. After a successful stage-1 call \<^verbatim>\<open>handleInitialAnalysis\<close> leaves the returned
  diagnosis active and the transcript equal to one tutor message whose content is the
  diagnosis's \<^verbatim>\<open>next_instruction\<close> (also when saving to the history raises afterwards);
  \<^verbatim>\<open>handleHistorySelect\<close> does the same for the item it loads.
\<close>

theorem new_session_transcript:
  "(image' s = Some img \<and> analyzeHomework_call gw img (textInput s) (audioBlob s) = Inr data
      \<longrightarrow> diagnosis (handleInitialAnalysis gw now now_id rnd now_ts s) = Some data
        \<and> chatHistory (handleInitialAnalysis gw now now_id rnd now_ts s)
            = [\<lparr>role = Tutor, content = InitialDiagnosis.next_instruction data,
                audioUrl = None, timestamp = now, feedbackType = Some INFO\<rparr>])
   \<and> diagnosis (handleHistorySelect item s) = Some (InitialDiagnosis.truncate item)
   \<and> chatHistory (handleHistorySelect item s)
       = [\<lparr>role = Tutor, content = InitialDiagnosis.next_instruction item,
           audioUrl = None, timestamp = HistoryItem.timestamp item, feedbackType = Some INFO\<rparr>]
   \<and> InitialDiagnosis.next_instruction (InitialDiagnosis.truncate item)
       = InitialDiagnosis.next_instruction item"
  by (auto simp: handleInitialAnalysis_def handleHistorySelect_def first_instruction_def Let_def
      InitialDiagnosis.truncate_def split: sum.splits prod.splits)

theorem new_session_transcript_witness:
  "diagnosis (handleInitialAnalysis (example_service CONTINUE) 1000 1234567 ''k3x'' 1234568
       (initial_App\<lparr>image' := Some example_jpeg\<rparr>)) = Some example_diagnosis
   \<and> chatHistory (handleInitialAnalysis (example_service CONTINUE) 1000 1234567 ''k3x'' 1234568
       (initial_App\<lparr>image' := Some example_jpeg\<rparr>))
       = [\<lparr>role = Tutor, content = ''Which law links force and acceleration?'',
           audioUrl = None, timestamp = 1000, feedbackType = Some INFO\<rparr>]
   \<and> chatHistory (handleHistorySelect example_item active_app)
       = [\<lparr>role = Tutor, content = ''Which law links force and acceleration?'',
           audioUrl = None, timestamp = 1234568, feedbackType = Some INFO\<rparr>]"
  using new_session_transcript
    [where s = "initial_App\<lparr>image' := Some example_jpeg\<rparr>" and img = example_jpeg
       and gw = "example_service CONTINUE" and data = example_diagnosis and now = 1000
       and now_id = 1234567 and rnd = "''k3x''" and now_ts = 1234568 and item = example_item]
    new_session_transcript [where s = active_app and item = example_item]
  by (simp add: initial_App_def example_service_def example_diagnosis_def example_item_def
      newItem_def InitialDiagnosis.extend_def HistoryItem.fields_def)

lemma tutorMsg_FeedbackResult_json:
  "tutorMsg (FeedbackResult_json fb) t
     = Inr \<lparr>role = Tutor,
            content = feedback_message fb @ '' '' @ FeedbackResult.next_instruction fb,
            audioUrl = None, timestamp = t,
            feedbackType = Some (Evaluation (evaluation_result fb))\<rparr>"
  by (cases "evaluation_result fb") (simp_all add: tutorMsg_def FeedbackResult_json_def)

lemma dialogue_action_FeedbackResult_json:
  "(get_prop (FeedbackResult_json fb) ''dialogue_action'' = Inr (Some (JStr ''MASTERY_ACHIEVED'')))
     = (dialogue_action fb = MASTERY_ACHIEVED)"
  by (cases "dialogue_action fb") (simp_all add: FeedbackResult_json_def)

lemma handlePracticeReply_settles:
  assumes "diagnosis s = Some d" and "replyText s \<noteq> [] \<or> replyAudio s \<noteq> None"
    and "evaluatePracticeResponse_call gw
           (topic (new_practice_question d), question_text (new_practice_question d))
           (chatHistory s @ [userMsg s now_user]) (content (userMsg s now_user)) (replyAudio s)
         = outcome"
  shows "handlePracticeReply gw now_user now_tutor s
           = reply_settled outcome now_tutor (reply_sent d now_user s)"
  using assms by (auto simp: handlePracticeReply_def)

text \<open>
  Claim C5, as stated, fails. The stage-2 operation returns what \<^verbatim>\<open>JSON.parse\<close> made of
  the service's text without a check: on the text \<^verbatim>\<open>null\<close> the call succeeds with
  \<^verbatim>\<open>null\<close>, the handler raises when it reads \<^verbatim>\<open>feedback_message\<close>, and the transcript ends
  with the user message: no tutor message is appended, and an error is shown instead.
\<close>

theorem practice_reply_null_feedback_counterexample:
  "evaluatePracticeResponse_call null_service
      (''Newton'', ''A 2 kg cart is pushed with 20 N.'')
      [\<lparr>role = Tutor, content = ''Which law links force and acceleration?'',
         audioUrl = None, timestamp = 1000, feedbackType = Some INFO\<rparr>,
       \<lparr>role = User, content = ''F = ma, so a = 10'',
         audioUrl = None, timestamp = 2000, feedbackType = None\<rparr>]
      ''F = ma, so a = 10'' None
     = Inr JNull
   \<and> session_state active_app = ActiveSession
   \<and> chatHistory (handlePracticeReply null_service 2000 3000 active_app)
       = [\<lparr>role = Tutor, content = ''Which law links force and acceleration?'',
           audioUrl = None, timestamp = 1000, feedbackType = Some INFO\<rparr>,
          \<lparr>role = User, content = ''F = ma, so a = 10'',
           audioUrl = None, timestamp = 2000, feedbackType = None\<rparr>]
   \<and> error (handlePracticeReply null_service 2000 3000 active_app) \<noteq> None"
  by (simp add: null_service_def evaluatePracticeResponse_def example_platform_def
      audio_parts_def parse_feedback_def feedback_request_def active_app_def initial_App_def
      session_state_def example_diagnosis_def first_instruction_def handlePracticeReply_def
      userMsg_def reply_sent_def reply_settled_def reply_failed_def tutorMsg_def)

text \<open>
  Claim C5, amended. In an active session, with a reply text or a reply audio, the handler
  first appends the user message (the typed text, or "(Audio Response)" when there is no
  text) and issues one stage-2 call. When the call succeeds with a value that is not
  \<^verbatim>\<open>null\<close> and whose \<^verbatim>\<open>feedback_message\<close> and \<^verbatim>\<open>next_instruction\<close> convert to strings, it
  appends after it the tutor message whose content is the two strings with a space between
  and whose \<^verbatim>\<open>feedbackType\<close> is the value's \<^verbatim>\<open>evaluation_result\<close>; the session is then in
  MasteryAchieved if \<^verbatim>\<open>dialogue_action\<close> is \<^verbatim>\<open>"MASTERY_ACHIEVED"\<close> and stays in ActiveSession
  otherwise. Every value of the declared \<^verbatim>\<open>FeedbackResult\<close> type is such a value, with the
  content \<^verbatim>\<open>feedback_message\<close>, a space, \<^verbatim>\<open>next_instruction\<close>. When the call succeeds with
  \<^verbatim>\<open>null\<close>, or one of the two conversions raises, no tutor message is appended: the error
  is stored as the error message and the session stays in ActiveSession.
\<close>

theorem practice_reply_success:
  assumes "diagnosis s = Some d" and "session_state s = ActiveSession"
    and "replyText s \<noteq> [] \<or> replyAudio s \<noteq> None"
    and "evaluatePracticeResponse_call gw
           (topic (new_practice_question d), question_text (new_practice_question d))
           (chatHistory s @ [userMsg s now_user]) (content (userMsg s now_user)) (replyAudio s)
         = Inr feedback"
  shows "chatHistory (reply_sent d now_user s)
           = chatHistory s
             @ [\<lparr>role = User,
                 content = (if replyText s = [] then ''(Audio Response)'' else replyText s),
                 audioUrl = None, timestamp = now_user, feedbackType = None\<rparr>]
         \<and> requests (reply_sent d now_user s) = requests s @ [practice_call d s now_user]
         \<and> handlePracticeReply gw now_user now_tutor s
             = reply_settled (Inr feedback) now_tutor (reply_sent d now_user s)
         \<and> (\<forall>fm ni a b.
               feedback \<noteq> JNull
               \<and> get_prop feedback ''feedback_message'' = Inr fm \<and> ToString_opt fm = Inr a
               \<and> get_prop feedback ''next_instruction'' = Inr ni \<and> ToString_opt ni = Inr b
               \<longrightarrow>
               (\<exists>er da.
                  get_prop feedback ''evaluation_result'' = Inr er
                  \<and> get_prop feedback ''dialogue_action'' = Inr da
                  \<and> chatHistory (handlePracticeReply gw now_user now_tutor s)
                      = chatHistory (reply_sent d now_user s)
                        @ [\<lparr>role = Tutor, content = a @ '' '' @ b, audioUrl = None,
                            timestamp = now_tutor, feedbackType = as_FeedbackType er\<rparr>]
                  \<and> session_state (handlePracticeReply gw now_user now_tutor s)
                      = (if da = Some (JStr ''MASTERY_ACHIEVED'') then MasteryAchieved
                         else ActiveSession)))
         \<and> (\<forall>fb.
               feedback = FeedbackResult_json fb
               \<longrightarrow>
               chatHistory (handlePracticeReply gw now_user now_tutor s)
                 = chatHistory (reply_sent d now_user s)
                   @ [\<lparr>role = Tutor,
                       content = feedback_message fb @ '' ''
                                 @ FeedbackResult.next_instruction fb,
                       audioUrl = None, timestamp = now_tutor,
                       feedbackType = Some (Evaluation (evaluation_result fb))\<rparr>]
               \<and> session_state (handlePracticeReply gw now_user now_tutor s)
                   = (if dialogue_action fb = MASTERY_ACHIEVED then MasteryAchieved
                      else ActiveSession))
         \<and> (feedback = JNull
             \<or> (\<exists>fm e. get_prop feedback ''feedback_message'' = Inr fm \<and> ToString_opt fm = Inl e)
             \<or> (\<exists>ni e. get_prop feedback ''next_instruction'' = Inr ni \<and> ToString_opt ni = Inl e)
             \<longrightarrow>
             chatHistory (handlePracticeReply gw now_user now_tutor s)
               = chatHistory (reply_sent d now_user s)
             \<and> session_state (handlePracticeReply gw now_user now_tutor s) = ActiveSession
             \<and> error (handlePracticeReply gw now_user now_tutor s) \<noteq> None)"
proof -
  let ?sent = "reply_sent d now_user s"
  let ?h = "handlePracticeReply gw now_user now_tutor s"
  have active: "\<not> isMasteryAchieved s"
    using assms(1,2) by (simp add: session_state_def split: if_splits)
  have h: "?h = reply_settled (Inr feedback) now_tutor ?sent"
    using handlePracticeReply_settles [OF assms(1,3,4)] .
  have sent: "chatHistory ?sent
      = chatHistory s
        @ [\<lparr>role = User,
            content = (if replyText s = [] then ''(Audio Response)'' else replyText s),
            audioUrl = None, timestamp = now_user, feedbackType = None\<rparr>]"
    "requests ?sent = requests s @ [practice_call d s now_user]"
    "diagnosis ?sent = Some d" "\<not> isMasteryAchieved ?sent"
    using assms(1) active by (simp_all add: reply_sent_def userMsg_def)
  have ok: "chatHistory ?h = chatHistory ?sent @ [msg]
      \<and> session_state ?h
          = (if get_prop feedback ''dialogue_action'' = Inr (Some (JStr ''MASTERY_ACHIEVED''))
             then MasteryAchieved else ActiveSession)"
    if "tutorMsg feedback now_tutor = Inr msg" for msg
    using that sent(3,4) by (simp add: h reply_settled_def session_state_def)
  have bad: "chatHistory ?h = chatHistory ?sent \<and> session_state ?h = ActiveSession
      \<and> error ?h \<noteq> None"
    if "tutorMsg feedback now_tutor = Inl e" for e
    using that sent(3,4) by (simp add: h reply_settled_def reply_failed_def session_state_def)
  have general: "\<exists>er da.
      get_prop feedback ''evaluation_result'' = Inr er
      \<and> get_prop feedback ''dialogue_action'' = Inr da
      \<and> chatHistory ?h
          = chatHistory ?sent
            @ [\<lparr>role = Tutor, content = a @ '' '' @ b, audioUrl = None,
                timestamp = now_tutor, feedbackType = as_FeedbackType er\<rparr>]
      \<and> session_state ?h
          = (if da = Some (JStr ''MASTERY_ACHIEVED'') then MasteryAchieved else ActiveSession)"
    if n: "feedback \<noteq> JNull"
      and p: "get_prop feedback ''feedback_message'' = Inr fm" "ToString_opt fm = Inr a"
        "get_prop feedback ''next_instruction'' = Inr ni" "ToString_opt ni = Inr b"
    for fm ni a b
  proof -
    from n obtain er da where g: "get_prop feedback ''evaluation_result'' = Inr er"
      "get_prop feedback ''dialogue_action'' = Inr da"
      by (cases feedback) simp_all
    have "tutorMsg feedback now_tutor
        = Inr \<lparr>role = Tutor, content = a @ '' '' @ b, audioUrl = None,
               timestamp = now_tutor, feedbackType = as_FeedbackType er\<rparr>"
      using p g by (simp add: tutorMsg_def)
    from ok [OF this] g show ?thesis
      by simp
  qed
  have typed: "chatHistory ?h
        = chatHistory ?sent
          @ [\<lparr>role = Tutor,
              content = feedback_message fb @ '' '' @ FeedbackResult.next_instruction fb,
              audioUrl = None, timestamp = now_tutor,
              feedbackType = Some (Evaluation (evaluation_result fb))\<rparr>]
      \<and> session_state ?h
          = (if dialogue_action fb = MASTERY_ACHIEVED then MasteryAchieved else ActiveSession)"
    if "feedback = FeedbackResult_json fb" for fb
    using ok [of "\<lparr>role = Tutor,
              content = feedback_message fb @ '' '' @ FeedbackResult.next_instruction fb,
              audioUrl = None, timestamp = now_tutor,
              feedbackType = Some (Evaluation (evaluation_result fb))\<rparr>"]
    by (simp add: that tutorMsg_FeedbackResult_json dialogue_action_FeedbackResult_json)
  have raised: "chatHistory ?h = chatHistory ?sent \<and> session_state ?h = ActiveSession
      \<and> error ?h \<noteq> None"
    if "feedback = JNull
        \<or> (\<exists>fm e. get_prop feedback ''feedback_message'' = Inr fm \<and> ToString_opt fm = Inl e)
        \<or> (\<exists>ni e. get_prop feedback ''next_instruction'' = Inr ni \<and> ToString_opt ni = Inl e)"
  proof -
    from that have "\<exists>e. tutorMsg feedback now_tutor = Inl e"
      by (auto simp: tutorMsg_def split: sum.splits)
    with bad show ?thesis
      by blast
  qed
  from sent(1,2) h general typed raised show ?thesis
    by blast
qed

theorem practice_reply_success_witness:
  "chatHistory (handlePracticeReply (example_service MASTERY_ACHIEVED) 2000 3000 active_app)
     = [\<lparr>role = Tutor, content = ''Which law links force and acceleration?'',
         audioUrl = None, timestamp = 1000, feedbackType = Some INFO\<rparr>,
        \<lparr>role = User, content = ''F = ma, so a = 10'',
         audioUrl = None, timestamp = 2000, feedbackType = None\<rparr>,
        \<lparr>role = Tutor, content = ''Right. Now state the unit.'',
         audioUrl = None, timestamp = 3000, feedbackType = Some (Evaluation CORRECT)\<rparr>]
   \<and> session_state (handlePracticeReply (example_service MASTERY_ACHIEVED) 2000 3000 active_app)
       = MasteryAchieved
   \<and> session_state (handlePracticeReply (example_service CONTINUE) 2000 3000 active_app)
       = ActiveSession
   \<and> chatHistory (handlePracticeReply null_service 2000 3000 active_app)
       = [\<lparr>role = Tutor, content = ''Which law links force and acceleration?'',
           audioUrl = None, timestamp = 1000, feedbackType = Some INFO\<rparr>,
          \<lparr>role = User, content = ''F = ma, so a = 10'',
           audioUrl = None, timestamp = 2000, feedbackType = None\<rparr>]
   \<and> session_state (handlePracticeReply null_service 2000 3000 active_app) = ActiveSession"
proof -
  have s: "diagnosis active_app = Some example_diagnosis"
    "session_state active_app = ActiveSession"
    "replyText active_app \<noteq> [] \<or> replyAudio active_app \<noteq> None"
    by (simp_all add: active_app_def initial_App_def session_state_def)
  have sent: "chatHistory (reply_sent example_diagnosis 2000 active_app)
      = [\<lparr>role = Tutor, content = ''Which law links force and acceleration?'',
          audioUrl = None, timestamp = 1000, feedbackType = Some INFO\<rparr>,
         \<lparr>role = User, content = ''F = ma, so a = 10'',
          audioUrl = None, timestamp = 2000, feedbackType = None\<rparr>]"
    by (simp add: reply_sent_def userMsg_def active_app_def initial_App_def
        first_instruction_def)
  have m: "evaluatePracticeResponse_call (example_service action)
      (topic (new_practice_question example_diagnosis),
       question_text (new_practice_question example_diagnosis))
      (chatHistory active_app @ [userMsg active_app 2000]) (content (userMsg active_app 2000))
      (replyAudio active_app)
      = Inr (FeedbackResult_json (example_feedback action))" for action
    by (simp add: example_service_def)
  have n: "evaluatePracticeResponse_call null_service
      (topic (new_practice_question example_diagnosis),
       question_text (new_practice_question example_diagnosis))
      (chatHistory active_app @ [userMsg active_app 2000]) (content (userMsg active_app 2000))
      (replyAudio active_app)
      = Inr JNull"
    by (simp add: null_service_def evaluatePracticeResponse_def example_platform_def
        audio_parts_def parse_feedback_def active_app_def initial_App_def)
  have typed: "chatHistory (handlePracticeReply (example_service action) 2000 3000 active_app)
        = chatHistory (reply_sent example_diagnosis 2000 active_app)
          @ [\<lparr>role = Tutor,
              content = feedback_message (example_feedback action) @ '' ''
                        @ FeedbackResult.next_instruction (example_feedback action),
              audioUrl = None, timestamp = 3000,
              feedbackType = Some (Evaluation (evaluation_result (example_feedback action)))\<rparr>]
      \<and> session_state (handlePracticeReply (example_service action) 2000 3000 active_app)
          = (if dialogue_action (example_feedback action) = MASTERY_ACHIEVED
             then MasteryAchieved else ActiveSession)" for action
    using practice_reply_success [OF s m [of action], of 3000] by blast
  have null: "chatHistory (handlePracticeReply null_service 2000 3000 active_app)
        = chatHistory (reply_sent example_diagnosis 2000 active_app)
      \<and> session_state (handlePracticeReply null_service 2000 3000 active_app) = ActiveSession"
    using practice_reply_success [OF s n, of 3000] by blast
  from typed [of MASTERY_ACHIEVED] typed [of CONTINUE] null show ?thesis
    by (simp add: sent example_feedback_def)
qed

text \<open>
  Claim C6. When the stage-2 call fails, the transcript is the old transcript followed by
  the user message that was appended before the call, and nothing else; diagnosis and
  mastery flag are unchanged, so the session stays in ActiveSession; the error is stored
  as the one error message of the state.
\<close>

theorem practice_reply_failure:
  assumes "diagnosis s = Some d" and "session_state s = ActiveSession"
    and "replyText s \<noteq> [] \<or> replyAudio s \<noteq> None"
    and "evaluatePracticeResponse_call gw
           (topic (new_practice_question d), question_text (new_practice_question d))
           (chatHistory s @ [userMsg s now_user]) (content (userMsg s now_user)) (replyAudio s)
         = Inl err"
  shows "chatHistory (handlePracticeReply gw now_user now_tutor s)
           = chatHistory s @ [userMsg s now_user]
         \<and> chatHistory (handlePracticeReply gw now_user now_tutor s)
             = chatHistory (reply_sent d now_user s)
         \<and> diagnosis (handlePracticeReply gw now_user now_tutor s) = diagnosis s
         \<and> isMasteryAchieved (handlePracticeReply gw now_user now_tutor s) = isMasteryAchieved s
         \<and> session_state (handlePracticeReply gw now_user now_tutor s) = ActiveSession
         \<and> error (handlePracticeReply gw now_user now_tutor s)
             = Some (if message err = [] then ''Failed to get feedback.'' else message err)"
  using assms
  by (auto simp: handlePracticeReply_def reply_sent_def reply_settled_def reply_failed_def
      session_state_def message_or_def split: if_splits)

theorem practice_reply_failure_witness:
  "chatHistory (handlePracticeReply failing_service 2000 3000 active_app)
     = [\<lparr>role = Tutor, content = ''Which law links force and acceleration?'',
         audioUrl = None, timestamp = 1000, feedbackType = Some INFO\<rparr>,
        \<lparr>role = User, content = ''F = ma, so a = 10'',
         audioUrl = None, timestamp = 2000, feedbackType = None\<rparr>]
   \<and> session_state (handlePracticeReply failing_service 2000 3000 active_app) = ActiveSession
   \<and> error (handlePracticeReply failing_service 2000 3000 active_app)
       = Some ''Failed to evaluate answer.''"
  using practice_reply_failure
          [where s = active_app and d = example_diagnosis and gw = failing_service
             and now_user = 2000 and now_tutor = 3000
             and err = "Error ''Failed to evaluate answer.''"]
  by (simp add: active_app_def initial_App_def failing_service_def session_state_def
      reply_sent_def reply_settled_def reply_failed_def userMsg_def first_instruction_def)

text \<open>
  Claim C2, as stated, fails. \<^verbatim>\<open>handlePracticeReply\<close> does not read the mastery flag: called
  in a MasteryAchieved state that holds a reply text, it makes a gateway call and adds two
  messages to the transcript. And loading a history item, which is not a new homework,
  takes the session from MasteryAchieved to ActiveSession.
\<close>

theorem mastery_not_checked_counterexample:
  "session_state mastered_app = MasteryAchieved
   \<and> requests mastered_app = []
   \<and> length (requests (handlePracticeReply (example_service CONTINUE) 2000 3000 mastered_app)) = 1
   \<and> length (chatHistory mastered_app) = 1
   \<and> length (chatHistory (handlePracticeReply (example_service CONTINUE) 2000 3000 mastered_app))
       = 3
   \<and> session_state (handleHistorySelect example_item mastered_app) = ActiveSession"
  by (simp add: mastered_app_def active_app_def initial_App_def session_state_def
      handlePracticeReply_def reply_sent_def reply_settled_def example_service_def
      tutorMsg_FeedbackResult_json handleHistorySelect_def)

text \<open>
  Claim C2, amended. Once the mastery flag is set, the reply form is not rendered: neither
  Enter in the text area nor the Reply button can submit a reply, so a reply event leaves
  the state as it is, with no gateway call and the transcript unchanged. The session
  leaves MasteryAchieved when "Upload New Homework" is clicked (diagnosis and transcript
  are cleared), when a valid new image is accepted (diagnosis, transcript and flag are
  reset) or when a history item is loaded (an active session on that item).
\<close>

theorem mastery_hides_reply_form:
  assumes "isMasteryAchieved s"
  shows "\<not> reply_form_rendered s \<and> \<not> reply_button_enabled s
         \<and> submit_reply ev gw now_user now_tutor s = s
         \<and> diagnosis (uploadNewHomework s) = None \<and> chatHistory (uploadNewHomework s) = []
         \<and> session_state (handleHistorySelect item s) = ActiveSession
         \<and> (validateFile f = None \<longrightarrow>
               diagnosis (handleImageUpload (f # rest) url s) = None
               \<and> chatHistory (handleImageUpload (f # rest) url s) = []
               \<and> \<not> isMasteryAchieved (handleImageUpload (f # rest) url s))"
  using assms
  by (cases ev)
     (simp_all add: reply_form_rendered_def reply_button_enabled_def submit_reply_def
       handleHistorySelect_def session_state_def handleImageUpload_def accept_file_def
       uploadNewHomework_def)

theorem mastery_hides_reply_form_witness:
  "submit_reply PressEnter (example_service CONTINUE) 2000 3000 mastered_app = mastered_app
   \<and> submit_reply ClickReply (example_service CONTINUE) 2000 3000 mastered_app = mastered_app
   \<and> \<not> isMasteryAchieved (handleImageUpload [example_jpeg] ''blob:1'' mastered_app)
   \<and> chatHistory (handleImageUpload [example_jpeg] ''blob:1'' mastered_app) = []"
  using mastery_hides_reply_form
          [where s = mastered_app and ev = PressEnter and gw = "example_service CONTINUE"
             and now_user = 2000 and now_tutor = 3000 and f = example_jpeg and rest = "[]"
             and url = "''blob:1''"]
        mastery_hides_reply_form
          [where s = mastered_app and ev = ClickReply and gw = "example_service CONTINUE"
             and now_user = 2000 and now_tutor = 3000]
  by (simp add: mastered_app_def validateFile_def example_jpeg_def ALLOWED_TYPES_def
      MAX_FILE_SIZE_BYTES_def MAX_FILE_SIZE_MB_def)

end
